theory Spec2Isabelle
  imports Main
begin

section \<open>The CNI wrapper plugin: data model\<close>

text \<open>
  The program is \<^verbatim>\<open>src/cni-wrapper-plugin/main.go\<close>: the two CNI verbs \<^verbatim>\<open>cmdAdd\<close> and
  \<^verbatim>\<open>cmdDel\<close>, the helper \<^verbatim>\<open>getLocalDNSServers\<close> and the constructor
  \<^verbatim>\<open>newPluginController\<close>. Everything the two verbs call (the delegate plugin, the
  metadata store, the firewall chain managers, the HTTP client, the netlink lookup)
  lives in other packages; the embedding takes those operations as the fields of an
  environment record, each a function on the state of the host, and records every
  call the orchestration makes, with its arguments and its outcome, in a trace.
  A Go \<^verbatim>\<open>error\<close> is the text of its message; where a call returns only an error, the
  outcome is a \<open>string option\<close> and \<open>None\<close> is \<^verbatim>\<open>nil\<close>.
\<close>

type_synonym json = string
  \<comment> \<open>an opaque document (\<^verbatim>\<open>map[string]interface{}\<close>, a delegate result, an egress rule)
      that the orchestration only forwards\<close>

type_synonym ip = "nat list"
  \<comment> \<open>\<^verbatim>\<open>net.IP\<close>: a slice of bytes\<close>

record port_mapping =
  \<comment> \<open>an element of \<^verbatim>\<open>cfg.RuntimeConfig.PortMappings\<close>; the ports are integers, whatever
      their width: the code compares \<^verbatim>\<open>HostPort\<close> with 0 and converts both to \<^verbatim>\<open>int\<close>\<close>
  host_port :: int
  container_port :: int

record runtime_config =
  port_mappings :: "port_mapping list"
  net_out_rules :: "json list"

record wrapper_config =
  \<comment> \<open>the fields of \<^verbatim>\<open>lib.WrapperConfig\<close> that \<^verbatim>\<open>main.go\<close> reads\<close>
  cfg_datastore :: string
  cfg_iptables_lock_file :: string
  cfg_delegate :: json
  cfg_no_masquerade_cidr_range :: string
  cfg_vtep_name :: string
  cfg_policy_agent_force_poll_address :: string
  cfg_dns_servers :: "string list"
  cfg_temporary_underlay_interface_names :: "string list"
  cfg_underlay_ips :: "string list"
  cfg_iptables_asg_logging :: bool
  cfg_iptables_c2c_logging :: bool
  cfg_iptables_denied_logs_per_sec :: int
  cfg_iptables_accepted_udp_logs_per_sec :: int
  cfg_ingress_tag :: string
  cfg_host_tcp_services :: "string list"
  cfg_instance_address :: string
  cfg_runtime_config :: runtime_config

record cmd_args =
  \<comment> \<open>\<^verbatim>\<open>skel.CmdArgs\<close>: the container handle and the configuration payload\<close>
  container_id :: string
  stdin_data :: string

record dns =
  nameservers :: "string list"
  domain :: string
  search :: "string list"
  options :: "string list"

record ip_config =
  ipc_version :: string
  ipc_address_ip :: ip
  ipc_address_mask :: ip
  ipc_gateway :: ip

record result030 =
  \<comment> \<open>\<^verbatim>\<open>current.Result\<close>, the normalised result of the delegate\<close>
  res_cni_version :: string
  res_interfaces :: "json list"
  res_ips :: "ip_config list"
  res_routes :: "json list"
  res_dns :: dns

record store =
  \<comment> \<open>the paths and owner \<^verbatim>\<open>datastore.Store\<close> is built with\<close>
  st_locker_path :: string
  st_data_file_path :: string
  st_version_file_path :: string
  st_locked_file_path :: string
  st_file_owner :: string
  st_file_group :: string

record container =
  con_handle :: string
  con_ip :: string
  con_metadata :: json

record chain_namer =
  max_length :: nat

record plugin_controller =
  pc_iptables :: string
  \<comment> \<open>the locked iptables accessor, known by the path of its lock file\<close>

record net_out =
  \<comment> \<open>\<^verbatim>\<open>legacynet.NetOut\<close>, the egress chain manager; a field the code leaves out has
      its zero value\<close>
  no_chain_namer :: chain_namer
  no_iptables :: string
  no_asg_logging :: bool
  no_c2c_logging :: bool
  no_denied_logs_per_sec :: int
  no_accepted_udp_logs_per_sec :: int
  no_ingress_tag :: string
  no_vtep_name :: string
  no_host_interface_names :: "string list"
  no_container_handle :: string
  no_container_ip :: string
  no_host_tcp_services :: "string list"
  no_dns_servers :: "string list"

record net_in =
  \<comment> \<open>\<^verbatim>\<open>legacynet.NetIn\<close>, the ingress chain manager\<close>
  ni_chain_namer :: chain_namer
  ni_iptables :: string
  ni_ingress_tag :: string
  ni_host_interface_names :: "string list"

record http_response =
  status_code :: int
  body :: string

datatype failure = Error string | Panic string
  \<comment> \<open>what a verb ends with when it does not return \<^verbatim>\<open>nil\<close>: a returned error, or a
      run-time panic\<close>

subsection \<open>The trace of calls\<close>

text \<open>
  One event per call that leaves \<^verbatim>\<open>main.go\<close>, with the arguments of the call and, last,
  what it returned; \<open>Stderr\<close> is a write to the error stream.
\<close>

datatype event =
    IPTablesNew "string option"
  | DelegateAdd json "string + json"
  | DelegateDel json "string option"
  | StoreAdd store string string json "string option"
  | StoreDelete store string "container \<times> string option"
  | HttpGet string "string + http_response"
  | GetNamesFromIPs "string list" "string + string list"
  | NetOutInitialize net_out "string option"
  | NetOutBulkInsertRules net_out "json list" "string option"
  | NetOutCleanup net_out "string option"
  | NetInInitialize net_in string "string option"
  | NetInAddRule net_in string int int string string "string option"
  | NetInCleanup net_in string "string option"
  | AddIPMasq string string string "string option"
  | DelIPMasq string string string "string option"
  | Print result030 "string option"
  | Stderr string

record 'w sys =
  \<comment> \<open>the state of the host, and the calls made so far\<close>
  ext :: 'w
  trace :: "event list"

text \<open>
  The collaborators. The first six are functions of their arguments alone (decoding,
  conversion, \<^verbatim>\<open>net.ParseIP\<close>, \<^verbatim>\<open>IP.IsLinkLocalUnicast\<close>, \<^verbatim>\<open>IP.String\<close>); the others read
  and change the host.
\<close>

record 'w env =
  load_wrapper_config :: "string \<Rightarrow> string + wrapper_config"
  json_unmarshal_metadata :: "string \<Rightarrow> string + json"
  new_result_from_result :: "json \<Rightarrow> string + result030"
  parse_ip :: "string \<Rightarrow> ip option"
  is_link_local_unicast :: "ip \<Rightarrow> bool"
  ip_string :: "ip \<Rightarrow> string"
  iptables_new :: "'w \<Rightarrow> string option \<times> 'w"
  delegate_add :: "json \<Rightarrow> 'w \<Rightarrow> (string + json) \<times> 'w"
  delegate_del :: "json \<Rightarrow> 'w \<Rightarrow> string option \<times> 'w"
  store_add :: "store \<Rightarrow> string \<Rightarrow> string \<Rightarrow> json \<Rightarrow> 'w \<Rightarrow> string option \<times> 'w"
  store_delete :: "store \<Rightarrow> string \<Rightarrow> 'w \<Rightarrow> (container \<times> string option) \<times> 'w"
  http_get :: "string \<Rightarrow> 'w \<Rightarrow> (string + http_response) \<times> 'w"
  get_names_from_ips :: "string list \<Rightarrow> 'w \<Rightarrow> (string + string list) \<times> 'w"
  netout_initialize :: "net_out \<Rightarrow> 'w \<Rightarrow> string option \<times> 'w"
  netout_bulk_insert_rules :: "net_out \<Rightarrow> json list \<Rightarrow> 'w \<Rightarrow> string option \<times> 'w"
  netout_cleanup :: "net_out \<Rightarrow> 'w \<Rightarrow> string option \<times> 'w"
  netin_initialize :: "net_in \<Rightarrow> string \<Rightarrow> 'w \<Rightarrow> string option \<times> 'w"
  netin_add_rule ::
    "net_in \<Rightarrow> string \<Rightarrow> int \<Rightarrow> int \<Rightarrow> string \<Rightarrow> string \<Rightarrow> 'w \<Rightarrow> string option \<times> 'w"
  netin_cleanup :: "net_in \<Rightarrow> string \<Rightarrow> 'w \<Rightarrow> string option \<times> 'w"
  add_ip_masq :: "string \<Rightarrow> string \<Rightarrow> string \<Rightarrow> 'w \<Rightarrow> string option \<times> 'w"
  del_ip_masq :: "string \<Rightarrow> string \<Rightarrow> string \<Rightarrow> 'w \<Rightarrow> string option \<times> 'w"
  print_result :: "result030 \<Rightarrow> 'w \<Rightarrow> string option \<times> 'w"

definition call :: "('w \<Rightarrow> 'r \<times> 'w) \<Rightarrow> ('r \<Rightarrow> event) \<Rightarrow> 'w sys \<Rightarrow> 'r \<times> 'w sys" where
  "call f ev s =
     (case f (ext s) of (r, w') \<Rightarrow> (r, s\<lparr>ext := w', trace := trace s @ [ev r]\<rparr>))"

definition fprint_stderr :: "string \<Rightarrow> 'w sys \<Rightarrow> 'w sys" where
  "fprint_stderr msg s = s\<lparr>trace := trace s @ [Stderr msg]\<rparr>"

definition start :: "'w \<Rightarrow> 'w sys" where
  "start w = \<lparr>ext = w, trace = []\<rparr>"

subsection \<open>Formatting integers, as \<^verbatim>\<open>%d\<close> and \<^verbatim>\<open>%v\<close> do\<close>

definition digit :: "nat \<Rightarrow> char" where
  "digit d = ''0123456789'' ! d"

function show_nat :: "nat \<Rightarrow> string" where
  "show_nat n = (if n < 10 then [digit n] else show_nat (n div 10) @ [digit (n mod 10)])"
  by pat_completeness auto
termination
  by (relation "measure id") auto

declare show_nat.simps [simp del]

definition show_int :: "int \<Rightarrow> string" where
  "show_int i = (if i < 0 then CHR ''-'' # show_nat (nat (- i)) else show_nat (nat i))"

section \<open>The operations of \<^verbatim>\<open>main.go\<close>\<close>

subsection \<open>\<^verbatim>\<open>getLocalDNSServers\<close> (lines 173-184)\<close>

text \<open>
  The loop appends to \<^verbatim>\<open>localDNSServers\<close>, the accumulator here, and returns at the
  first entry that \<^verbatim>\<open>net.ParseIP\<close> rejects. \<^verbatim>\<open>net.ParseIP\<close> and
  \<^verbatim>\<open>IP.IsLinkLocalUnicast\<close> belong to the Go library and are parameters.
\<close>

fun getLocalDNSServers_loop ::
  "(string \<Rightarrow> ip option) \<Rightarrow> (ip \<Rightarrow> bool) \<Rightarrow> string list \<Rightarrow> string list \<Rightarrow> string + string list"
where
  "getLocalDNSServers_loop parse local localDNSServers [] = Inr localDNSServers"
| "getLocalDNSServers_loop parse local localDNSServers (entry # rest) =
     (case parse entry of
        None \<Rightarrow>
          Inl (''invalid DNS server '' @ [CHR 0x22] @ entry @ [CHR 0x22] @ '', must be valid IP address'')
      | Some dnsIP \<Rightarrow>
          if local dnsIP
          then getLocalDNSServers_loop parse local (localDNSServers @ [entry]) rest
          else getLocalDNSServers_loop parse local localDNSServers rest)"

definition getLocalDNSServers ::
  "(string \<Rightarrow> ip option) \<Rightarrow> (ip \<Rightarrow> bool) \<Rightarrow> string list \<Rightarrow> string + string list"
where
  "getLocalDNSServers parse local allDNSServers =
     getLocalDNSServers_loop parse local [] allDNSServers"

subsection \<open>\<^verbatim>\<open>newPluginController\<close> (lines 266-288)\<close>

definition newPluginController ::
  "'w env \<Rightarrow> string \<Rightarrow> 'w sys \<Rightarrow> (string + plugin_controller) \<times> 'w sys"
where
  "newPluginController env iptablesLockFile s =
     (case call (iptables_new env) IPTablesNew s of
        (Some err, s') \<Rightarrow> (Inl err, s')
      | (None, s') \<Rightarrow> (Inr \<lparr>pc_iptables = iptablesLockFile\<rparr>, s'))"

subsection \<open>Interface names (lines 103-111 of \<^verbatim>\<open>cmdAdd\<close>, 233-241 of \<^verbatim>\<open>cmdDel\<close>)\<close>

definition interface_names ::
  "'w env \<Rightarrow> wrapper_config \<Rightarrow> 'w sys \<Rightarrow> (string + string list) \<times> 'w sys"
where
  "interface_names env cfg s =
     (if length (cfg_temporary_underlay_interface_names cfg) > 0
      then (Inr (cfg_temporary_underlay_interface_names cfg), s)
      else
        (case call (get_names_from_ips env (cfg_underlay_ips cfg))
                   (GetNamesFromIPs (cfg_underlay_ips cfg)) s of
           (Inl err, s') \<Rightarrow> (Inl (''looking up interface names: '' @ err), s')
         | (Inr names, s') \<Rightarrow> (Inr names, s')))"

subsection \<open>The port-mapping loop of \<^verbatim>\<open>cmdAdd\<close> (lines 149-157)\<close>

fun add_port_mappings ::
  "'w env \<Rightarrow> net_in \<Rightarrow> string \<Rightarrow> string \<Rightarrow> string \<Rightarrow> port_mapping list \<Rightarrow> 'w sys
     \<Rightarrow> failure option \<times> 'w sys"
where
  "add_port_mappings env netinProvider cid instanceAddress containerIP [] s = (None, s)"
| "add_port_mappings env netinProvider cid instanceAddress containerIP (netIn # rest) s =
     (if host_port netIn \<le> 0
      then (Some (Error (''cannot allocate port '' @ show_int (host_port netIn))), s)
      else
        (case call (netin_add_rule env netinProvider cid (host_port netIn) (container_port netIn)
                      instanceAddress containerIP)
                   (NetInAddRule netinProvider cid (host_port netIn) (container_port netIn)
                      instanceAddress containerIP) s of
           (Some err, s') \<Rightarrow> (Some (Error (''adding netin rule: '' @ err)), s')
         | (None, s') \<Rightarrow>
             add_port_mappings env netinProvider cid instanceAddress containerIP rest s'))"

subsection \<open>\<^verbatim>\<open>cmdAdd\<close> (lines 27-171)\<close>

definition add_store :: "wrapper_config \<Rightarrow> store" where
  "add_store cfg =
     \<lparr>st_locker_path = cfg_datastore cfg @ ''_lock'',
      st_data_file_path = cfg_datastore cfg,
      st_version_file_path = cfg_datastore cfg @ ''_version'',
      st_locked_file_path = cfg_datastore cfg @ ''_lock'',
      st_file_owner = ''vcap'',
      st_file_group = ''vcap''\<rparr>"

definition add_net_out ::
  "wrapper_config \<Rightarrow> plugin_controller \<Rightarrow> string list \<Rightarrow> string \<Rightarrow> string \<Rightarrow> string list \<Rightarrow> net_out"
where
  "add_net_out cfg pluginController interfaceNames cid containerIP localDNSServers =
     \<lparr>no_chain_namer = \<lparr>max_length = 28\<rparr>,
      no_iptables = pc_iptables pluginController,
      no_asg_logging = cfg_iptables_asg_logging cfg,
      no_c2c_logging = cfg_iptables_c2c_logging cfg,
      no_denied_logs_per_sec = cfg_iptables_denied_logs_per_sec cfg,
      no_accepted_udp_logs_per_sec = cfg_iptables_accepted_udp_logs_per_sec cfg,
      no_ingress_tag = cfg_ingress_tag cfg,
      no_vtep_name = cfg_vtep_name cfg,
      no_host_interface_names = interfaceNames,
      no_container_handle = cid,
      no_container_ip = containerIP,
      no_host_tcp_services = cfg_host_tcp_services cfg,
      no_dns_servers = localDNSServers\<rparr>"

definition add_net_in :: "wrapper_config \<Rightarrow> plugin_controller \<Rightarrow> string list \<Rightarrow> net_in" where
  "add_net_in cfg pluginController interfaceNames =
     \<lparr>ni_chain_namer = \<lparr>max_length = 28\<rparr>,
      ni_iptables = pc_iptables pluginController,
      ni_ingress_tag = cfg_ingress_tag cfg,
      ni_host_interface_names = interfaceNames\<rparr>"

definition cmdAdd :: "'w env \<Rightarrow> cmd_args \<Rightarrow> 'w sys \<Rightarrow> (failure + unit) \<times> 'w sys" where
  "cmdAdd env args s0 =
  (case load_wrapper_config env (stdin_data args) of
     Inl err \<Rightarrow> (Inl (Error err), s0)
   | Inr cfg \<Rightarrow>
  (case newPluginController env (cfg_iptables_lock_file cfg) s0 of
     (Inl err, s1) \<Rightarrow> (Inl (Error err), s1)
   | (Inr pluginController, s1) \<Rightarrow>
  (case call (delegate_add env (cfg_delegate cfg)) (DelegateAdd (cfg_delegate cfg)) s1 of
     (Inl err, s2) \<Rightarrow> (Inl (Error (''delegate call: '' @ err)), s2)
   | (Inr result, s2) \<Rightarrow>
  (case new_result_from_result env result of
     Inl err \<Rightarrow> (Inl (Error (''converting result from delegate plugin: '' @ err)), s2)
   | Inr result030 \<Rightarrow>
  (case res_ips result030 of
     [] \<Rightarrow> (Inl (Panic ''runtime error: index out of range [0] with length 0''), s2)
   | ipc0 # _ \<Rightarrow>
  (let containerIP = ip_string env (ipc_address_ip ipc0);
       store = add_store cfg in
  (case json_unmarshal_metadata env (stdin_data args) of
     Inl err \<Rightarrow> (Inl (Error err), s2)
   | Inr metadata \<Rightarrow>
  (case call (store_add env store (container_id args) containerIP metadata)
             (StoreAdd store (container_id args) containerIP metadata) s2 of
     (Some err, s3) \<Rightarrow>
       (let storeErr = ''store add: '' @ err;
            s4 = fprint_stderr storeErr s3;
            s5 = fprint_stderr ''cleaning up from error'' s4 in
        (case call (del_ip_masq env containerIP (cfg_no_masquerade_cidr_range cfg) (cfg_vtep_name cfg))
                   (DelIPMasq containerIP (cfg_no_masquerade_cidr_range cfg) (cfg_vtep_name cfg)) s5 of
           (Some err', s6) \<Rightarrow>
             (Inl (Error storeErr),
              fprint_stderr (''during cleanup: removing IP masq: '' @ err') s6)
         | (None, s6) \<Rightarrow> (Inl (Error storeErr), s6)))
   | (None, s3) \<Rightarrow>
  (case call (http_get env (''http://'' @ cfg_policy_agent_force_poll_address cfg @ ''/force-policy-poll-cycle''))
             (HttpGet (''http://'' @ cfg_policy_agent_force_poll_address cfg @ ''/force-policy-poll-cycle'')) s3 of
     (Inl err, s4) \<Rightarrow> (Inl (Error err), s4)
   | (Inr resp, s4) \<Rightarrow>
  (if status_code resp \<noteq> 200
   then (Inl (Error (''vpa response code: '' @ show_int (status_code resp)
                       @ '' with message: '' @ body resp)), s4)
   else
  (case getLocalDNSServers (parse_ip env) (is_link_local_unicast env) (cfg_dns_servers cfg) of
     Inl err \<Rightarrow> (Inl (Error err), s4)
   | Inr localDNSServers \<Rightarrow>
  (case interface_names env cfg s4 of
     (Inl err, s5) \<Rightarrow> (Inl (Error err), s5)
   | (Inr interfaceNames, s5) \<Rightarrow>
  (if container_id args = []
   then (Inl (Error ''invalid Container ID''), s5)
   else
  (let netOutProvider =
         add_net_out cfg pluginController interfaceNames (container_id args) containerIP localDNSServers in
  (case call (netout_initialize env netOutProvider) (NetOutInitialize netOutProvider) s5 of
     (Some err, s6) \<Rightarrow> (Inl (Error (''initialize net out: '' @ err)), s6)
   | (None, s6) \<Rightarrow>
  (let netinProvider = add_net_in cfg pluginController interfaceNames in
  (case call (netin_initialize env netinProvider (container_id args))
             (NetInInitialize netinProvider (container_id args)) s6 of
     (err, s7) \<Rightarrow>
  (case add_port_mappings env netinProvider (container_id args) (cfg_instance_address cfg)
          containerIP (port_mappings (cfg_runtime_config cfg)) s7 of
     (Some f, s8) \<Rightarrow> (Inl f, s8)
   | (None, s8) \<Rightarrow>
  (case call (netout_bulk_insert_rules env netOutProvider (net_out_rules (cfg_runtime_config cfg)))
             (NetOutBulkInsertRules netOutProvider (net_out_rules (cfg_runtime_config cfg))) s8 of
     (Some err, s9) \<Rightarrow> (Inl (Error (''bulk insert: '' @ err)), s9)
   | (None, s9) \<Rightarrow>
  (case call (add_ip_masq env containerIP (cfg_no_masquerade_cidr_range cfg) (cfg_vtep_name cfg))
             (AddIPMasq containerIP (cfg_no_masquerade_cidr_range cfg) (cfg_vtep_name cfg)) s9 of
     (Some err, s10) \<Rightarrow> (Inl (Error (''error setting up default ip masq rule: '' @ err)), s10)
   | (None, s10) \<Rightarrow>
  (let printed = result030\<lparr>res_dns := (res_dns result030)\<lparr>nameservers := cfg_dns_servers cfg\<rparr>\<rparr> in
  (case call (print_result env printed) (Print printed) s10 of
     (Some err, s11) \<Rightarrow> (Inl (Error err), s11)
   | (None, s11) \<Rightarrow> (Inr (), s11)))))))))))))))))))))))"

subsection \<open>\<^verbatim>\<open>cmdDel\<close> (lines 186-264)\<close>

definition del_store :: "wrapper_config \<Rightarrow> store" where
  "del_store n =
     \<lparr>st_locker_path = cfg_datastore n @ ''_lock'',
      st_data_file_path = cfg_datastore n,
      st_version_file_path = cfg_datastore n @ ''_version'',
      st_locked_file_path = [],
      st_file_owner = [],
      st_file_group = []\<rparr>"

definition del_net_in :: "wrapper_config \<Rightarrow> plugin_controller \<Rightarrow> net_in" where
  "del_net_in n pluginController =
     \<lparr>ni_chain_namer = \<lparr>max_length = 28\<rparr>,
      ni_iptables = pc_iptables pluginController,
      ni_ingress_tag = cfg_ingress_tag n,
      ni_host_interface_names = []\<rparr>"

definition del_net_out :: "plugin_controller \<Rightarrow> string \<Rightarrow> string \<Rightarrow> string list \<Rightarrow> net_out" where
  "del_net_out pluginController cid containerIP interfaceNames =
     \<lparr>no_chain_namer = \<lparr>max_length = 28\<rparr>,
      no_iptables = pc_iptables pluginController,
      no_asg_logging = False,
      no_c2c_logging = False,
      no_denied_logs_per_sec = 0,
      no_accepted_udp_logs_per_sec = 0,
      no_ingress_tag = [],
      no_vtep_name = [],
      no_host_interface_names = interfaceNames,
      no_container_handle = cid,
      no_container_ip = containerIP,
      no_host_tcp_services = [],
      no_dns_servers = []\<rparr>"

definition log_failure :: "string \<Rightarrow> string option \<Rightarrow> 'w sys \<Rightarrow> 'w sys" where
  \<comment> \<open>\<^verbatim>\<open>if err != nil { fmt.Fprintf(os.Stderr, prefix + "%s", err) }\<close>\<close>
  "log_failure prefix err s =
     (case err of None \<Rightarrow> s | Some e \<Rightarrow> fprint_stderr (prefix @ e) s)"

definition cmdDel :: "'w env \<Rightarrow> cmd_args \<Rightarrow> 'w sys \<Rightarrow> (failure + unit) \<times> 'w sys" where
  "cmdDel env args s0 =
  (case load_wrapper_config env (stdin_data args) of
     Inl err \<Rightarrow> (Inl (Error err), s0)
   | Inr n \<Rightarrow>
  (let store = del_store n in
  (case call (store_delete env store (container_id args))
             (StoreDelete store (container_id args)) s0 of
     ((container, err), s1) \<Rightarrow>
  (let s2 = log_failure ''store delete: '' err s1 in
  (case newPluginController env (cfg_iptables_lock_file n) s2 of
     (Inl err, s3) \<Rightarrow> (Inl (Error err), s3)
   | (Inr pluginController, s3) \<Rightarrow>
  (case call (delegate_del env (cfg_delegate n)) (DelegateDel (cfg_delegate n)) s3 of
     (err, s4) \<Rightarrow>
  (let s5 = log_failure ''delegate delete: '' err s4;
       netInProvider = del_net_in n pluginController in
  (case call (netin_cleanup env netInProvider (container_id args))
             (NetInCleanup netInProvider (container_id args)) s5 of
     (err, s6) \<Rightarrow>
  (let s7 = log_failure ''net in cleanup: '' err s6 in
  (case interface_names env n s7 of
     (Inl err, s8) \<Rightarrow> (Inl (Error err), s8)
   | (Inr interfaceNames, s8) \<Rightarrow>
  (let netOutProvider =
         del_net_out pluginController (container_id args) (con_ip container) interfaceNames in
  (case call (netout_cleanup env netOutProvider) (NetOutCleanup netOutProvider) s8 of
     (err, s9) \<Rightarrow>
  (let s10 = log_failure ''net out cleanup: '' err s9 in
  (case call (del_ip_masq env (con_ip container) (cfg_no_masquerade_cidr_range n) (cfg_vtep_name n))
             (DelIPMasq (con_ip container) (cfg_no_masquerade_cidr_range n) (cfg_vtep_name n)) s10 of
     (err, s11) \<Rightarrow>
       (Inr (), log_failure ''removing IP masq: '' err s11)))))))))))))))"

section \<open>\<^verbatim>\<open>cmdAdd\<close> by stages\<close>

text \<open>
  The tail of \<^verbatim>\<open>cmdAdd\<close> from three points on, each written as the lines of the source
  it covers. \<open>cmdAdd_staged\<close> below shows that \<open>cmdAdd\<close> is these pieces put together.
\<close>

definition cmdAdd_rules ::
  "'w env \<Rightarrow> cmd_args \<Rightarrow> wrapper_config \<Rightarrow> plugin_controller \<Rightarrow> result030 \<Rightarrow> string
     \<Rightarrow> string list \<Rightarrow> string list \<Rightarrow> 'w sys \<Rightarrow> (failure + unit) \<times> 'w sys"
where \<comment> \<open>lines 117-171\<close>
  "cmdAdd_rules env args cfg pluginController result030 containerIP localDNSServers interfaceNames s5 =
  (let netOutProvider =
         add_net_out cfg pluginController interfaceNames (container_id args) containerIP localDNSServers in
  (case call (netout_initialize env netOutProvider) (NetOutInitialize netOutProvider) s5 of
     (Some err, s6) \<Rightarrow> (Inl (Error (''initialize net out: '' @ err)), s6)
   | (None, s6) \<Rightarrow>
  (let netinProvider = add_net_in cfg pluginController interfaceNames in
  (case call (netin_initialize env netinProvider (container_id args))
             (NetInInitialize netinProvider (container_id args)) s6 of
     (err, s7) \<Rightarrow>
  (case add_port_mappings env netinProvider (container_id args) (cfg_instance_address cfg)
          containerIP (port_mappings (cfg_runtime_config cfg)) s7 of
     (Some f, s8) \<Rightarrow> (Inl f, s8)
   | (None, s8) \<Rightarrow>
  (case call (netout_bulk_insert_rules env netOutProvider (net_out_rules (cfg_runtime_config cfg)))
             (NetOutBulkInsertRules netOutProvider (net_out_rules (cfg_runtime_config cfg))) s8 of
     (Some err, s9) \<Rightarrow> (Inl (Error (''bulk insert: '' @ err)), s9)
   | (None, s9) \<Rightarrow>
  (case call (add_ip_masq env containerIP (cfg_no_masquerade_cidr_range cfg) (cfg_vtep_name cfg))
             (AddIPMasq containerIP (cfg_no_masquerade_cidr_range cfg) (cfg_vtep_name cfg)) s9 of
     (Some err, s10) \<Rightarrow> (Inl (Error (''error setting up default ip masq rule: '' @ err)), s10)
   | (None, s10) \<Rightarrow>
  (let printed = result030\<lparr>res_dns := (res_dns result030)\<lparr>nameservers := cfg_dns_servers cfg\<rparr>\<rparr> in
  (case call (print_result env printed) (Print printed) s10 of
     (Some err, s11) \<Rightarrow> (Inl (Error err), s11)
   | (None, s11) \<Rightarrow> (Inr (), s11))))))))))"

definition cmdAdd_resume ::
  "'w env \<Rightarrow> cmd_args \<Rightarrow> wrapper_config \<Rightarrow> plugin_controller \<Rightarrow> result030 \<Rightarrow> string
     \<Rightarrow> 'w sys \<Rightarrow> (failure + unit) \<times> 'w sys"
where \<comment> \<open>lines 94-171: what follows the policy-agent notification\<close>
  "cmdAdd_resume env args cfg pluginController result030 containerIP s4 =
  (case getLocalDNSServers (parse_ip env) (is_link_local_unicast env) (cfg_dns_servers cfg) of
     Inl err \<Rightarrow> (Inl (Error err), s4)
   | Inr localDNSServers \<Rightarrow>
  (case interface_names env cfg s4 of
     (Inl err, s5) \<Rightarrow> (Inl (Error err), s5)
   | (Inr interfaceNames, s5) \<Rightarrow>
  (if container_id args = []
   then (Inl (Error ''invalid Container ID''), s5)
   else cmdAdd_rules env args cfg pluginController result030 containerIP
          localDNSServers interfaceNames s5)))"

definition cmdAdd_notify ::
  "'w env \<Rightarrow> cmd_args \<Rightarrow> wrapper_config \<Rightarrow> plugin_controller \<Rightarrow> result030 \<Rightarrow> string
     \<Rightarrow> 'w sys \<Rightarrow> (failure + unit) \<times> 'w sys"
where \<comment> \<open>lines 84-171: from the policy-agent notification on\<close>
  "cmdAdd_notify env args cfg pluginController result030 containerIP s3 =
  (case call (http_get env (''http://'' @ cfg_policy_agent_force_poll_address cfg @ ''/force-policy-poll-cycle''))
             (HttpGet (''http://'' @ cfg_policy_agent_force_poll_address cfg @ ''/force-policy-poll-cycle'')) s3 of
     (Inl err, s4) \<Rightarrow> (Inl (Error err), s4)
   | (Inr resp, s4) \<Rightarrow>
  (if status_code resp \<noteq> 200
   then (Inl (Error (''vpa response code: '' @ show_int (status_code resp)
                       @ '' with message: '' @ body resp)), s4)
   else cmdAdd_resume env args cfg pluginController result030 containerIP s4))"

section \<open>Describing traces\<close>

definition policy_url :: "wrapper_config \<Rightarrow> string" where
  "policy_url cfg =
     ''http://'' @ cfg_policy_agent_force_poll_address cfg @ ''/force-policy-poll-cycle''"

definition logged :: "string \<Rightarrow> string option \<Rightarrow> event list" where
  \<comment> \<open>what a failure leaves on the error stream\<close>
  "logged prefix err = (case err of None \<Rightarrow> [] | Some e \<Rightarrow> [Stderr (prefix @ e)])"

definition lookup_events :: "wrapper_config \<Rightarrow> string list \<Rightarrow> event list" where
  \<comment> \<open>the calls of a successful interface-name resolution: none when the configuration
      supplies the names\<close>
  "lookup_events cfg names =
     (if length (cfg_temporary_underlay_interface_names cfg) > 0 then []
      else [GetNamesFromIPs (cfg_underlay_ips cfg) (Inr names)])"

definition add_rule_events ::
  "net_in \<Rightarrow> string \<Rightarrow> string \<Rightarrow> string \<Rightarrow> port_mapping list \<Rightarrow> string option list \<Rightarrow> event list"
where
  \<comment> \<open>one \<^verbatim>\<open>AddRule\<close> call per mapping, in list order, for as many mappings as there are outcomes\<close>
  "add_rule_events ni cid ia ip pms outs =
     map (\<lambda>(pm, out). NetInAddRule ni cid (host_port pm) (container_port pm) ia ip out) (zip pms outs)"

fun port_outcome :: "port_mapping list \<Rightarrow> string option list \<Rightarrow> failure option \<Rightarrow> bool" where
  \<comment> \<open>the result of the port-mapping loop, given the outcomes of the \<^verbatim>\<open>AddRule\<close> calls it made\<close>
  "port_outcome [] outs r = (outs = [] \<and> r = None)"
| "port_outcome (pm # pms) outs r =
     (if host_port pm \<le> 0
      then outs = [] \<and> r = Some (Error (''cannot allocate port '' @ show_int (host_port pm)))
      else (case outs of
              [] \<Rightarrow> False
            | Some e # outs' \<Rightarrow> outs' = [] \<and> r = Some (Error (''adding netin rule: '' @ e))
            | None # outs' \<Rightarrow> port_outcome pms outs' r))"

fun is_add_rule :: "event \<Rightarrow> bool" where
  "is_add_rule (NetInAddRule ni cid hp cp ia ip out) = True"
| "is_add_rule e = False"

fun is_cleanup :: "event \<Rightarrow> bool" where
  \<comment> \<open>the calls that take something back: chain teardown, masquerade removal, record or
      delegate deletion\<close>
  "is_cleanup (NetInCleanup ni cid out) = True"
| "is_cleanup (NetOutCleanup no out) = True"
| "is_cleanup (DelIPMasq ip cidr vtep out) = True"
| "is_cleanup (StoreDelete st h out) = True"
| "is_cleanup (DelegateDel d out) = True"
| "is_cleanup e = False"

fun event_container_ip :: "event \<Rightarrow> string option" where
  \<comment> \<open>the container address a call is given, when it is given one\<close>
  "event_container_ip (StoreAdd st h ip md out) = Some ip"
| "event_container_ip (NetOutInitialize no out) = Some (no_container_ip no)"
| "event_container_ip (NetOutBulkInsertRules no rules out) = Some (no_container_ip no)"
| "event_container_ip (NetOutCleanup no out) = Some (no_container_ip no)"
| "event_container_ip (NetInAddRule ni cid hp cp ia ip out) = Some ip"
| "event_container_ip (AddIPMasq ip cidr vtep out) = Some ip"
| "event_container_ip (DelIPMasq ip cidr vtep out) = Some ip"
| "event_container_ip e = None"

fun event_namer :: "event \<Rightarrow> chain_namer option" where
  \<comment> \<open>the chain namer of the firewall chain manager a call goes to\<close>
  "event_namer (NetOutInitialize no out) = Some (no_chain_namer no)"
| "event_namer (NetOutBulkInsertRules no rules out) = Some (no_chain_namer no)"
| "event_namer (NetOutCleanup no out) = Some (no_chain_namer no)"
| "event_namer (NetInInitialize ni cid out) = Some (ni_chain_namer ni)"
| "event_namer (NetInAddRule ni cid hp cp ia ip out) = Some (ni_chain_namer ni)"
| "event_namer (NetInCleanup ni cid out) = Some (ni_chain_namer ni)"
| "event_namer e = None"

fun event_dns_servers :: "event \<Rightarrow> string list option" where
  \<comment> \<open>the DNS server list a firewall chain manager is given\<close>
  "event_dns_servers (NetOutInitialize no out) = Some (no_dns_servers no)"
| "event_dns_servers (NetOutBulkInsertRules no rules out) = Some (no_dns_servers no)"
| "event_dns_servers e = None"

definition local_dns :: "(string \<Rightarrow> ip option) \<Rightarrow> (ip \<Rightarrow> bool) \<Rightarrow> string \<Rightarrow> bool" where
  \<comment> \<open>the entry parses as an IP address and the address is link-local unicast\<close>
  "local_dns parse local entry = (case parse entry of None \<Rightarrow> False | Some dnsIP \<Rightarrow> local dnsIP)"

section \<open>Chain names\<close>

text \<open>
  Modelled from the spec: the chain-naming function of \<^verbatim>\<open>legacynet.ChainNamer\<close>, whose
  code is not in \<^verbatim>\<open>src/\<close> (\<^verbatim>\<open>main.go\<close> only builds the namer, with \<^verbatim>\<open>MaxLength: 28\<close>).
  The spec: a chain identifier is ``derived deterministically from container handle plus
  a role tag (ingress/egress), truncated to a fixed maximum length (28)''.
\<close>

definition chain_name :: "chain_namer \<Rightarrow> string \<Rightarrow> string \<Rightarrow> string" where
  "chain_name namer tag handle = take (max_length namer) (tag @ handle)"

section \<open>A host on which every call succeeds\<close>

text \<open>
  A configuration, a delegate result and an environment to run the two verbs on. The
  environment has no state of its own; a run that needs a failing collaborator
  replaces that field.
\<close>

definition example_config :: wrapper_config where
  "example_config =
     \<lparr>cfg_datastore = ''/var/vcap/data/container-metadata/store.json'',
      cfg_iptables_lock_file = ''/var/vcap/data/garden-cni/iptables.lock'',
      cfg_delegate = ''silk'',
      cfg_no_masquerade_cidr_range = ''10.255.0.0/16'',
      cfg_vtep_name = ''silk-vtep'',
      cfg_policy_agent_force_poll_address = ''127.0.0.1:8687'',
      cfg_dns_servers = [''169.254.0.2'', ''8.8.8.8''],
      cfg_temporary_underlay_interface_names = [],
      cfg_underlay_ips = [''10.0.0.1''],
      cfg_iptables_asg_logging = False,
      cfg_iptables_c2c_logging = False,
      cfg_iptables_denied_logs_per_sec = 1,
      cfg_iptables_accepted_udp_logs_per_sec = 100,
      cfg_ingress_tag = ''ffff0000'',
      cfg_host_tcp_services = [],
      cfg_instance_address = ''10.0.0.1'',
      cfg_runtime_config =
        \<lparr>port_mappings = [\<lparr>host_port = 8080, container_port = 80\<rparr>], net_out_rules = []\<rparr>\<rparr>"

definition example_result :: result030 where
  "example_result =
     \<lparr>res_cni_version = ''0.3.1'',
      res_interfaces = [],
      res_ips = [\<lparr>ipc_version = ''4'', ipc_address_ip = [10, 255, 30, 5],
                 ipc_address_mask = [255, 255, 255, 255], ipc_gateway = [169, 254, 0, 1]\<rparr>],
      res_routes = [],
      res_dns = \<lparr>nameservers = [''1.1.1.1''], domain = ''internal'', search = [], options = []\<rparr>\<rparr>"

definition example_args :: cmd_args where
  "example_args = \<lparr>container_id = ''c1'', stdin_data = ''config''\<rparr>"

definition example_env :: "unit env" where
  "example_env =
     \<lparr>load_wrapper_config =
        (\<lambda>stdin. if stdin = ''config'' then Inr example_config else Inl ''unexpected end of JSON input''),
      json_unmarshal_metadata = (\<lambda>stdin. Inr ''{}''),
      new_result_from_result = (\<lambda>result. Inr example_result),
      parse_ip = map_of [(''169.254.0.2'', [169, 254, 0, 2]), (''8.8.8.8'', [8, 8, 8, 8])],
      is_link_local_unicast = (\<lambda>a. take 2 a = [169, 254]),
      ip_string = (\<lambda>a. if a = [10, 255, 30, 5] then ''10.255.30.5'' else ''<nil>''),
      iptables_new = (\<lambda>w. (None, w)),
      delegate_add = (\<lambda>d w. (Inr ''result'', w)),
      delegate_del = (\<lambda>d w. (None, w)),
      store_add = (\<lambda>st h a md w. (None, w)),
      store_delete =
        (\<lambda>st h w. ((\<lparr>con_handle = h, con_ip = ''10.255.30.5'', con_metadata = ''{}''\<rparr>, None), w)),
      http_get = (\<lambda>url w. (Inr \<lparr>status_code = 200, body = ''''\<rparr>, w)),
      get_names_from_ips = (\<lambda>ips w. (Inr [''eth0''], w)),
      netout_initialize = (\<lambda>no w. (None, w)),
      netout_bulk_insert_rules = (\<lambda>no rules w. (None, w)),
      netout_cleanup = (\<lambda>no w. (None, w)),
      netin_initialize = (\<lambda>ni h w. (None, w)),
      netin_add_rule = (\<lambda>ni h hp cp ia a w. (None, w)),
      netin_cleanup = (\<lambda>ni h w. (None, w)),
      add_ip_masq = (\<lambda>a cidr vtep w. (None, w)),
      del_ip_masq = (\<lambda>a cidr vtep w. (None, w)),
      print_result = (\<lambda>res w. (None, w))\<rparr>"

definition example_pc :: plugin_controller where
  "example_pc = \<lparr>pc_iptables = ''/var/vcap/data/garden-cni/iptables.lock''\<rparr>"

section \<open>Hosts on which a call fails\<close>

definition netin_failing_env :: "unit env" where
  "netin_failing_env =
     example_env\<lparr>netin_initialize := \<lambda>ni h w. (Some ''running [iptables -N]: exit status 4'', w)\<rparr>"

definition no_mappings_config :: wrapper_config where
  "no_mappings_config =
     example_config\<lparr>cfg_runtime_config := \<lparr>port_mappings = [], net_out_rules = []\<rparr>\<rparr>"

definition netin_failing_no_mappings_env :: "unit env" where
  "netin_failing_no_mappings_env =
     netin_failing_env\<lparr>load_wrapper_config := \<lambda>stdin. Inr no_mappings_config\<rparr>"

definition lookup_failing_env :: "unit env" where
  "lookup_failing_env =
     example_env\<lparr>get_names_from_ips := \<lambda>ips w. (Inl ''no such network interface'', w)\<rparr>"

definition no_container :: container where
  \<comment> \<open>the zero value of \<^verbatim>\<open>datastore.Container\<close>\<close>
  "no_container = \<lparr>con_handle = [], con_ip = [], con_metadata = []\<rparr>"

definition teardown_failing_env :: "unit env" where
  "teardown_failing_env =
     example_env\<lparr>store_delete := \<lambda>st h w. ((no_container, Some ''permission denied''), w),
       delegate_del := \<lambda>d w. (Some ''netns not found'', w),
       netin_cleanup := \<lambda>ni h w. (Some ''no chain'', w),
       netout_cleanup := \<lambda>no w. (Some ''no chain'', w),
       del_ip_masq := \<lambda>a cidr vtep w. (Some ''no such rule'', w)\<rparr>"

definition truncated_args :: cmd_args where
  "truncated_args = \<lparr>container_id = ''c1'', stdin_data = ''{''\<rparr>"

definition store_failing_env :: "unit env" where
  "store_failing_env =
     example_env\<lparr>store_add := \<lambda>st h a md w. (Some ''permission denied'', w),
       del_ip_masq := \<lambda>a cidr vtep w. (Some ''no such rule'', w)\<rparr>"

definition status_204_env :: "unit env" where
  "status_204_env =
     example_env\<lparr>http_get := \<lambda>url w. (Inr \<lparr>status_code = 204, body = []\<rparr>, w)\<rparr>"

definition status_500_env :: "unit env" where
  "status_500_env =
     example_env\<lparr>http_get := \<lambda>url w. (Inr \<lparr>status_code = 500, body = ''poll failed''\<rparr>, w)\<rparr>"

definition bad_port_config :: wrapper_config where
  "bad_port_config =
     example_config\<lparr>cfg_runtime_config :=
       \<lparr>port_mappings = [\<lparr>host_port = 8080, container_port = 80\<rparr>,
                         \<lparr>host_port = 0, container_port = 81\<rparr>,
                         \<lparr>host_port = 9090, container_port = 90\<rparr>],
        net_out_rules = []\<rparr>\<rparr>"

definition bad_port_env :: "unit env" where
  "bad_port_env = example_env\<lparr>load_wrapper_config := \<lambda>stdin. Inr bad_port_config\<rparr>"

definition bad_dns_config :: wrapper_config where
  "bad_dns_config =
     example_config\<lparr>cfg_dns_servers := [''169.254.0.2'', ''dns.internal'', ''8.8.8.8'']\<rparr>"

definition bad_dns_env :: "unit env" where
  "bad_dns_env = example_env\<lparr>load_wrapper_config := \<lambda>stdin. Inr bad_dns_config\<rparr>"

definition empty_handle_args :: cmd_args where
  "empty_handle_args = \<lparr>container_id = [], stdin_data = ''config''\<rparr>"

definition long_handle_a :: string where
  "long_handle_a = ''6a1f2d3c-8b7e-4c5d-9e0f-1a2b3c4d5e6f''"

definition long_handle_b :: string where
  "long_handle_b = ''6a1f2d3c-8b7e-4c5d-9e0f-1a2b3c4d5e70''"

section \<open>Running the verbs: basic facts\<close>

lemma show_int_examples:
  "show_int 0 = ''0''" "show_int 204 = ''204''" "show_int 500 = ''500''" "show_int (- 1) = ''-1''"
  by (simp_all add: show_int_def show_nat.simps digit_def)

lemma example_add:
  "cmdAdd example_env example_args (start ()) =
     (Inr (),
      \<lparr>ext = (),
       trace =
         [IPTablesNew None,
          DelegateAdd ''silk'' (Inr ''result''),
          StoreAdd (add_store example_config) ''c1'' ''10.255.30.5'' ''{}'' None,
          HttpGet ''http://127.0.0.1:8687/force-policy-poll-cycle'' (Inr \<lparr>status_code = 200, body = ''''\<rparr>),
          GetNamesFromIPs [''10.0.0.1''] (Inr [''eth0'']),
          NetOutInitialize (add_net_out example_config example_pc [''eth0''] ''c1'' ''10.255.30.5'' [''169.254.0.2'']) None,
          NetInInitialize (add_net_in example_config example_pc [''eth0'']) ''c1'' None,
          NetInAddRule (add_net_in example_config example_pc [''eth0'']) ''c1'' 8080 80 ''10.0.0.1'' ''10.255.30.5'' None,
          NetOutBulkInsertRules (add_net_out example_config example_pc [''eth0''] ''c1'' ''10.255.30.5'' [''169.254.0.2'']) [] None,
          AddIPMasq ''10.255.30.5'' ''10.255.0.0/16'' ''silk-vtep'' None,
          Print (example_result\<lparr>res_dns := (res_dns example_result)\<lparr>nameservers := [''169.254.0.2'', ''8.8.8.8'']\<rparr>\<rparr>) None]\<rparr>)"
  by (simp add: cmdAdd_def example_env_def example_args_def example_config_def example_result_def
      example_pc_def start_def call_def newPluginController_def interface_names_def
      getLocalDNSServers_def add_store_def add_net_out_def add_net_in_def Let_def)

lemma call_trace:
  "call f ev s = (r, s') \<Longrightarrow> trace s' = trace s @ [ev r]"
  by (auto simp: call_def split: prod.splits)

lemma log_failure_trace:
  "trace (log_failure prefix err s) = trace s @ logged prefix err"
  by (simp add: log_failure_def logged_def fprint_stderr_def split: option.splits)

lemma fprint_stderr_trace:
  "trace (fprint_stderr msg s) = trace s @ [Stderr msg]"
  by (simp add: fprint_stderr_def)

lemma newPluginController_cases:
  assumes "newPluginController env lockFile s = (r, s')"
  obtains
    (failed) e where "r = Inl e" "trace s' = trace s @ [IPTablesNew (Some e)]"
  | (built) "r = Inr \<lparr>pc_iptables = lockFile\<rparr>" "trace s' = trace s @ [IPTablesNew None]"
proof -
  obtain out s1 where c: "call (iptables_new env) IPTablesNew s = (out, s1)"
    by (metis surj_pair)
  note t = call_trace[OF c]
  show ?thesis
  proof (cases out)
    case None
    with assms c t show ?thesis by (intro built) (auto simp: newPluginController_def)
  next
    case (Some e)
    with assms c t show ?thesis by (intro failed[of e]) (auto simp: newPluginController_def)
  qed
qed

subsection \<open>The port-mapping loop\<close>

lemma add_port_mappings_run:
  "add_port_mappings env ni cid ia ip pms s = (r, s') \<Longrightarrow>
   \<exists>outs. trace s' = trace s @ add_rule_events ni cid ia ip pms outs \<and> port_outcome pms outs r"
proof (induction pms arbitrary: s)
  case Nil
  then show ?case by (simp add: add_rule_events_def)
next
  case (Cons pm pms)
  show ?case
  proof (cases "host_port pm \<le> 0")
    case True
    with Cons.prems show ?thesis by (intro exI[of _ "[]"]) (simp add: add_rule_events_def)
  next
    case False
    obtain out s1 where c: "call (netin_add_rule env ni cid (host_port pm) (container_port pm) ia ip)
         (NetInAddRule ni cid (host_port pm) (container_port pm) ia ip) s = (out, s1)"
      by (metis surj_pair)
    note t1 = call_trace[OF c]
    show ?thesis
    proof (cases out)
      case None
      with Cons.prems False c have "add_port_mappings env ni cid ia ip pms s1 = (r, s')" by simp
      from Cons.IH[OF this] obtain outs where
        "trace s' = trace s1 @ add_rule_events ni cid ia ip pms outs" "port_outcome pms outs r" by blast
      with t1 False None show ?thesis
        by (intro exI[of _ "None # outs"]) (simp add: add_rule_events_def)
    next
      case (Some e)
      with Cons.prems False c have "s' = s1" "r = Some (Error (''adding netin rule: '' @ e))" by simp_all
      with t1 False Some show ?thesis
        by (intro exI[of _ "[Some e]"]) (simp add: add_rule_events_def)
    qed
  qed
qed

lemma port_outcome_length:
  "port_outcome pms outs r \<Longrightarrow> length outs \<le> length pms"
  by (induction pms outs r rule: port_outcome.induct) (auto split: if_splits list.splits option.splits)

lemma port_outcome_positive:
  "port_outcome pms outs r \<Longrightarrow> pm \<in> set (take (length outs) pms) \<Longrightarrow> 0 < host_port pm"
  by (induction pms outs r rule: port_outcome.induct) (auto split: if_splits list.splits option.splits)

lemma port_outcome_None:
  "port_outcome pms outs None \<Longrightarrow>
     length outs = length pms \<and> (\<forall>out \<in> set outs. out = None) \<and> (\<forall>pm \<in> set pms. 0 < host_port pm)"
  by (induction pms outs "None :: failure option" rule: port_outcome.induct)
     (auto split: if_splits list.splits option.splits)

lemma port_outcome_bad:
  "port_outcome (pre @ bad # post) outs r \<Longrightarrow> \<forall>pm \<in> set pre. 0 < host_port pm \<Longrightarrow>
   host_port bad \<le> 0 \<Longrightarrow>
     length outs \<le> length pre \<and>
     (if \<forall>out \<in> set outs. out = None
      then length outs = length pre \<and>
           r = Some (Error (''cannot allocate port '' @ show_int (host_port bad)))
      else \<exists>e. outs \<noteq> [] \<and> last outs = Some e \<and> (\<forall>out \<in> set (butlast outs). out = None) \<and>
               r = Some (Error (''adding netin rule: '' @ e)))"
proof (induction pre arbitrary: outs)
  case Nil
  then show ?case by simp
next
  case (Cons pm pre)
  then have pos: "0 < host_port pm" by simp
  show ?case
  proof (cases outs)
    case Nil
    with Cons.prems pos show ?thesis by simp
  next
    case (Cons out outs')
    note outs = this
    show ?thesis
    proof (cases out)
      case (Some e)
      with Cons.prems pos outs show ?thesis by auto
    next
      case None
      with Cons.prems pos outs have "port_outcome (pre @ bad # post) outs' r" by simp
      from Cons.IH[OF this] Cons.prems(2,3) None outs show ?thesis
        by (auto split: if_splits)
    qed
  qed
qed

lemma add_rule_events_is_add_rule:
  "e \<in> set (add_rule_events ni cid ia ip pms outs) \<Longrightarrow> is_add_rule e"
  by (auto simp: add_rule_events_def)

lemma add_rule_events_facts:
  "e \<in> set (add_rule_events ni cid ia ip pms outs) \<Longrightarrow>
     event_container_ip e = Some ip \<and> event_namer e = Some (ni_chain_namer ni) \<and>
     event_dns_servers e = None \<and> \<not> is_cleanup e"
  by (auto simp: add_rule_events_def)

lemma add_rule_events_append:
  "length outs \<le> length pre \<Longrightarrow>
     add_rule_events ni cid ia ip (pre @ rest) outs = add_rule_events ni cid ia ip pre outs"
  by (simp add: add_rule_events_def zip_append1)

lemma filter_add_rule_events:
  "filter is_add_rule (add_rule_events ni cid ia ip pms outs) = add_rule_events ni cid ia ip pms outs"
  by (simp add: add_rule_events_def filter_map o_def split_def)

subsection \<open>Interface names\<close>

lemma interface_names_cases:
  assumes "interface_names env cfg s = (r, s')"
  obtains
    (failed) e where
      "cfg_temporary_underlay_interface_names cfg = []"
      "r = Inl (''looking up interface names: '' @ e)"
      "trace s' = trace s @ [GetNamesFromIPs (cfg_underlay_ips cfg) (Inl e)]"
  | (resolved) names where
      "r = Inr names" "trace s' = trace s @ lookup_events cfg names"
proof (cases "cfg_temporary_underlay_interface_names cfg = []")
  case False
  with assms show ?thesis
    by (intro resolved[of "cfg_temporary_underlay_interface_names cfg"])
       (auto simp: interface_names_def lookup_events_def)
next
  case True
  obtain out s1 where c: "call (get_names_from_ips env (cfg_underlay_ips cfg))
      (GetNamesFromIPs (cfg_underlay_ips cfg)) s = (out, s1)"
    by (metis surj_pair)
  note t = call_trace[OF c]
  show ?thesis
  proof (cases out)
    case (Inl e)
    with assms True c t show ?thesis
      by (intro failed[of e]) (auto simp: interface_names_def)
  next
    case (Inr names)
    with assms True c t show ?thesis
      by (intro resolved[of names]) (auto simp: interface_names_def lookup_events_def)
  qed
qed

subsection \<open>The stages of \<^verbatim>\<open>cmdAdd\<close>\<close>

lemma cmdAdd_staged:
  "cmdAdd env args s0 =
  (case load_wrapper_config env (stdin_data args) of
     Inl err \<Rightarrow> (Inl (Error err), s0)
   | Inr cfg \<Rightarrow>
  (case newPluginController env (cfg_iptables_lock_file cfg) s0 of
     (Inl err, s1) \<Rightarrow> (Inl (Error err), s1)
   | (Inr pluginController, s1) \<Rightarrow>
  (case call (delegate_add env (cfg_delegate cfg)) (DelegateAdd (cfg_delegate cfg)) s1 of
     (Inl err, s2) \<Rightarrow> (Inl (Error (''delegate call: '' @ err)), s2)
   | (Inr result, s2) \<Rightarrow>
  (case new_result_from_result env result of
     Inl err \<Rightarrow> (Inl (Error (''converting result from delegate plugin: '' @ err)), s2)
   | Inr result030 \<Rightarrow>
  (case res_ips result030 of
     [] \<Rightarrow> (Inl (Panic ''runtime error: index out of range [0] with length 0''), s2)
   | ipc0 # _ \<Rightarrow>
  (let containerIP = ip_string env (ipc_address_ip ipc0);
       store = add_store cfg in
  (case json_unmarshal_metadata env (stdin_data args) of
     Inl err \<Rightarrow> (Inl (Error err), s2)
   | Inr metadata \<Rightarrow>
  (case call (store_add env store (container_id args) containerIP metadata)
             (StoreAdd store (container_id args) containerIP metadata) s2 of
     (Some err, s3) \<Rightarrow>
       (let storeErr = ''store add: '' @ err;
            s4 = fprint_stderr storeErr s3;
            s5 = fprint_stderr ''cleaning up from error'' s4 in
        (case call (del_ip_masq env containerIP (cfg_no_masquerade_cidr_range cfg) (cfg_vtep_name cfg))
                   (DelIPMasq containerIP (cfg_no_masquerade_cidr_range cfg) (cfg_vtep_name cfg)) s5 of
           (Some err', s6) \<Rightarrow>
             (Inl (Error storeErr),
              fprint_stderr (''during cleanup: removing IP masq: '' @ err') s6)
         | (None, s6) \<Rightarrow> (Inl (Error storeErr), s6)))
   | (None, s3) \<Rightarrow> cmdAdd_notify env args cfg pluginController result030 containerIP s3))))))))"
  unfolding cmdAdd_def cmdAdd_notify_def cmdAdd_resume_def cmdAdd_rules_def by (rule refl)

lemma cmdAdd_rules_cases:
  assumes "cmdAdd_rules env args cfg pc res ip ldns names s = (r, s')"
  defines "no \<equiv> add_net_out cfg pc names (container_id args) ip ldns"
    and "ni \<equiv> add_net_in cfg pc names"
    and "cidr \<equiv> cfg_no_masquerade_cidr_range cfg"
    and "pms \<equiv> port_mappings (cfg_runtime_config cfg)"
    and "rules \<equiv> net_out_rules (cfg_runtime_config cfg)"
    and "ia \<equiv> cfg_instance_address cfg"
    and "printed \<equiv> res\<lparr>res_dns := (res_dns res)\<lparr>nameservers := cfg_dns_servers cfg\<rparr>\<rparr>"
  obtains
    (netout_init) e where
      "r = Inl (Error (''initialize net out: '' @ e))"
      "trace s' = trace s @ [NetOutInitialize no (Some e)]"
  | (ports) oi outs f where
      "r = Inl f" "port_outcome pms outs (Some f)"
      "trace s' = trace s @ [NetOutInitialize no None, NetInInitialize ni (container_id args) oi]
                   @ add_rule_events ni (container_id args) ia ip pms outs"
  | (bulk) oi outs e where
      "r = Inl (Error (''bulk insert: '' @ e))" "port_outcome pms outs None"
      "trace s' = trace s @ [NetOutInitialize no None, NetInInitialize ni (container_id args) oi]
                   @ add_rule_events ni (container_id args) ia ip pms outs
                   @ [NetOutBulkInsertRules no rules (Some e)]"
  | (masq) oi outs e where
      "r = Inl (Error (''error setting up default ip masq rule: '' @ e))" "port_outcome pms outs None"
      "trace s' = trace s @ [NetOutInitialize no None, NetInInitialize ni (container_id args) oi]
                   @ add_rule_events ni (container_id args) ia ip pms outs
                   @ [NetOutBulkInsertRules no rules None, AddIPMasq ip cidr (cfg_vtep_name cfg) (Some e)]"
  | (print) oi outs e where
      "r = Inl (Error e)" "port_outcome pms outs None"
      "trace s' = trace s @ [NetOutInitialize no None, NetInInitialize ni (container_id args) oi]
                   @ add_rule_events ni (container_id args) ia ip pms outs
                   @ [NetOutBulkInsertRules no rules None, AddIPMasq ip cidr (cfg_vtep_name cfg) None,
                      Print printed (Some e)]"
  | (success) oi outs where
      "r = Inr ()" "port_outcome pms outs None"
      "trace s' = trace s @ [NetOutInitialize no None, NetInInitialize ni (container_id args) oi]
                   @ add_rule_events ni (container_id args) ia ip pms outs
                   @ [NetOutBulkInsertRules no rules None, AddIPMasq ip cidr (cfg_vtep_name cfg) None,
                      Print printed None]"
proof -
  obtain o1 s1 where c1: "call (netout_initialize env no) (NetOutInitialize no) s = (o1, s1)"
    by (metis surj_pair)
  obtain o2 s2 where c2: "call (netin_initialize env ni (container_id args))
      (NetInInitialize ni (container_id args)) s1 = (o2, s2)"
    by (metis surj_pair)
  obtain o3 s3 where c3: "add_port_mappings env ni (container_id args) ia ip pms s2 = (o3, s3)"
    by (metis surj_pair)
  obtain o4 s4 where c4: "call (netout_bulk_insert_rules env no rules)
      (NetOutBulkInsertRules no rules) s3 = (o4, s4)"
    by (metis surj_pair)
  obtain o5 s5 where c5: "call (add_ip_masq env ip cidr (cfg_vtep_name cfg))
      (AddIPMasq ip cidr (cfg_vtep_name cfg)) s4 = (o5, s5)"
    by (metis surj_pair)
  obtain o6 s6 where c6: "call (print_result env printed) (Print printed) s5 = (o6, s6)"
    by (metis surj_pair)
  note t1 = call_trace[OF c1] and t2 = call_trace[OF c2] and t4 = call_trace[OF c4]
    and t5 = call_trace[OF c5] and t6 = call_trace[OF c6]
  from add_port_mappings_run[OF c3] obtain outs where
    t3: "trace s3 = trace s2 @ add_rule_events ni (container_id args) ia ip pms outs"
    and po: "port_outcome pms outs o3" by blast
  have run: "(r, s') =
    (case o1 of Some err \<Rightarrow> (Inl (Error (''initialize net out: '' @ err)), s1)
     | None \<Rightarrow> (case o3 of Some f \<Rightarrow> (Inl f, s3)
       | None \<Rightarrow> (case o4 of Some err \<Rightarrow> (Inl (Error (''bulk insert: '' @ err)), s4)
         | None \<Rightarrow> (case o5 of Some err \<Rightarrow> (Inl (Error (''error setting up default ip masq rule: '' @ err)), s5)
           | None \<Rightarrow> (case o6 of Some err \<Rightarrow> (Inl (Error err), s6) | None \<Rightarrow> (Inr (), s6))))))"
    using assms(1) c1 c2 c3 c4 c5 c6
    unfolding cmdAdd_rules_def no_def ni_def cidr_def pms_def rules_def ia_def printed_def Let_def
    by (simp split: option.splits)
  show ?thesis
  proof (cases o1)
    case (Some e)
    with run t1 show ?thesis by (intro netout_init[of e]) simp_all
  next
    case n1: None
    show ?thesis
    proof (cases o3)
      case (Some f)
      with run n1 t1 t2 t3 po show ?thesis by (intro ports[of f outs o2]) simp_all
    next
      case n3: None
      show ?thesis
      proof (cases o4)
        case (Some e)
        with run n1 n3 t1 t2 t3 t4 po show ?thesis by (intro bulk[of e outs o2]) simp_all
      next
        case n4: None
        show ?thesis
        proof (cases o5)
          case (Some e)
          with run n1 n3 n4 t1 t2 t3 t4 t5 po show ?thesis by (intro masq[of e outs o2]) simp_all
        next
          case n5: None
          show ?thesis
          proof (cases o6)
            case (Some e)
            with run n1 n3 n4 n5 t1 t2 t3 t4 t5 t6 po show ?thesis
              by (intro print[of e outs o2]) simp_all
          next
            case n6: None
            with run n1 n3 n4 n5 t1 t2 t3 t4 t5 t6 po show ?thesis
              by (intro success[of outs o2]) simp_all
          qed
        qed
      qed
    qed
  qed
qed

lemma cmdAdd_resume_cases:
  assumes "cmdAdd_resume env args cfg pc res ip s = (r, s')"
  obtains
    (dns) e where
      "getLocalDNSServers (parse_ip env) (is_link_local_unicast env) (cfg_dns_servers cfg) = Inl e"
      "r = Inl (Error e)" "trace s' = trace s"
  | (names) ldns e where
      "getLocalDNSServers (parse_ip env) (is_link_local_unicast env) (cfg_dns_servers cfg) = Inr ldns"
      "cfg_temporary_underlay_interface_names cfg = []"
      "r = Inl (Error (''looking up interface names: '' @ e))"
      "trace s' = trace s @ [GetNamesFromIPs (cfg_underlay_ips cfg) (Inl e)]"
  | (handle) ldns names where
      "getLocalDNSServers (parse_ip env) (is_link_local_unicast env) (cfg_dns_servers cfg) = Inr ldns"
      "container_id args = []"
      "r = Inl (Error ''invalid Container ID'')"
      "trace s' = trace s @ lookup_events cfg names"
  | (rules) ldns names s5 where
      "getLocalDNSServers (parse_ip env) (is_link_local_unicast env) (cfg_dns_servers cfg) = Inr ldns"
      "container_id args \<noteq> []"
      "trace s5 = trace s @ lookup_events cfg names"
      "cmdAdd_rules env args cfg pc res ip ldns names s5 = (r, s')"
proof (cases "getLocalDNSServers (parse_ip env) (is_link_local_unicast env) (cfg_dns_servers cfg)")
  case (Inl e)
  with assms show ?thesis by (intro dns[of e]) (auto simp: cmdAdd_resume_def)
next
  case (Inr ldns)
  note d = this
  obtain o3 s3 where c3: "interface_names env cfg s = (o3, s3)"
    by (metis surj_pair)
  have run: "(r, s') = (case o3 of Inl err \<Rightarrow> (Inl (Error err), s3)
      | Inr interfaceNames \<Rightarrow>
         if container_id args = [] then (Inl (Error ''invalid Container ID''), s3)
         else cmdAdd_rules env args cfg pc res ip ldns interfaceNames s3)"
    using assms d c3 by (simp add: cmdAdd_resume_def)
  from c3 show ?thesis
  proof (cases rule: interface_names_cases)
    case (failed e)
    with run d show ?thesis by (intro names[of ldns e]) simp_all
  next
    case (resolved nms)
    show ?thesis
    proof (cases "container_id args = []")
      case True
      with run resolved d show ?thesis by (intro handle[of ldns nms]) simp_all
    next
      case False
      with run resolved d show ?thesis by (intro rules[of ldns s3 nms]) simp_all
    qed
  qed
qed

lemma cmdAdd_notify_cases:
  assumes "cmdAdd_notify env args cfg pc res ip s = (r, s')"
  obtains
    (transport) e where
      "r = Inl (Error e)"
      "trace s' = trace s @ [HttpGet (policy_url cfg) (Inl e)]"
  | (status) resp where
      "status_code resp \<noteq> 200"
      "r = Inl (Error (''vpa response code: '' @ show_int (status_code resp)
                        @ '' with message: '' @ body resp))"
      "trace s' = trace s @ [HttpGet (policy_url cfg) (Inr resp)]"
  | (resume) resp s4 where
      "status_code resp = 200"
      "trace s4 = trace s @ [HttpGet (policy_url cfg) (Inr resp)]"
      "cmdAdd_resume env args cfg pc res ip s4 = (r, s')"
proof -
  obtain o1 s1 where c1: "call (http_get env (policy_url cfg)) (HttpGet (policy_url cfg)) s = (o1, s1)"
    by (metis surj_pair)
  note t1 = call_trace[OF c1]
  show ?thesis
  proof (cases o1)
    case (Inl e)
    with assms c1 t1 show ?thesis
      by (intro transport[of e]) (auto simp: cmdAdd_notify_def policy_url_def)
  next
    case (Inr resp)
    note r1 = this
    show ?thesis
    proof (cases "status_code resp = 200")
      case False
      with assms c1 t1 r1 show ?thesis
        by (intro status[of resp]) (auto simp: cmdAdd_notify_def policy_url_def)
    next
      case True
      with assms c1 t1 r1 show ?thesis
        by (intro resume[of resp s1]) (auto simp: cmdAdd_notify_def policy_url_def)
    qed
  qed
qed

lemma cmdAdd_cases:
  assumes "cmdAdd env args s = (r, s')"
  obtains
    (config) e where
      "load_wrapper_config env (stdin_data args) = Inl e"
      "r = Inl (Error e)" "trace s' = trace s"
  | (iptables) cfg e where
      "load_wrapper_config env (stdin_data args) = Inr cfg"
      "r = Inl (Error e)" "trace s' = trace s @ [IPTablesNew (Some e)]"
  | (delegate) cfg e where
      "load_wrapper_config env (stdin_data args) = Inr cfg"
      "r = Inl (Error (''delegate call: '' @ e))"
      "trace s' = trace s @ [IPTablesNew None, DelegateAdd (cfg_delegate cfg) (Inl e)]"
  | (convert) cfg raw e where
      "load_wrapper_config env (stdin_data args) = Inr cfg"
      "new_result_from_result env raw = Inl e"
      "r = Inl (Error (''converting result from delegate plugin: '' @ e))"
      "trace s' = trace s @ [IPTablesNew None, DelegateAdd (cfg_delegate cfg) (Inr raw)]"
  | (no_ips) cfg raw res where
      "load_wrapper_config env (stdin_data args) = Inr cfg"
      "new_result_from_result env raw = Inr res" "res_ips res = []"
      "r = Inl (Panic ''runtime error: index out of range [0] with length 0'')"
      "trace s' = trace s @ [IPTablesNew None, DelegateAdd (cfg_delegate cfg) (Inr raw)]"
  | (unmarshal) cfg raw res e where
      "load_wrapper_config env (stdin_data args) = Inr cfg"
      "new_result_from_result env raw = Inr res" "res_ips res \<noteq> []"
      "json_unmarshal_metadata env (stdin_data args) = Inl e"
      "r = Inl (Error e)"
      "trace s' = trace s @ [IPTablesNew None, DelegateAdd (cfg_delegate cfg) (Inr raw)]"
  | (store) cfg raw res ipc rest md e out where
      "load_wrapper_config env (stdin_data args) = Inr cfg"
      "new_result_from_result env raw = Inr res" "res_ips res = ipc # rest"
      "json_unmarshal_metadata env (stdin_data args) = Inr md"
      "r = Inl (Error (''store add: '' @ e))"
      "trace s' = trace s @
         [IPTablesNew None, DelegateAdd (cfg_delegate cfg) (Inr raw),
          StoreAdd (add_store cfg) (container_id args) (ip_string env (ipc_address_ip ipc)) md (Some e),
          Stderr (''store add: '' @ e), Stderr ''cleaning up from error'',
          DelIPMasq (ip_string env (ipc_address_ip ipc)) (cfg_no_masquerade_cidr_range cfg)
            (cfg_vtep_name cfg) out]
         @ logged ''during cleanup: removing IP masq: '' out"
  | (notify) cfg raw res ipc rest md s3 where
      "load_wrapper_config env (stdin_data args) = Inr cfg"
      "new_result_from_result env raw = Inr res" "res_ips res = ipc # rest"
      "json_unmarshal_metadata env (stdin_data args) = Inr md"
      "trace s3 = trace s @
         [IPTablesNew None, DelegateAdd (cfg_delegate cfg) (Inr raw),
          StoreAdd (add_store cfg) (container_id args) (ip_string env (ipc_address_ip ipc)) md None]"
      "cmdAdd_notify env args cfg \<lparr>pc_iptables = cfg_iptables_lock_file cfg\<rparr> res
         (ip_string env (ipc_address_ip ipc)) s3 = (r, s')"
proof (cases "load_wrapper_config env (stdin_data args)")
  case (Inl e)
  with assms show ?thesis by (intro config[of e]) (auto simp: cmdAdd_staged)
next
  case (Inr cfg)
  note l = this
  obtain o1 s1 where c1: "newPluginController env (cfg_iptables_lock_file cfg) s = (o1, s1)"
    by (metis surj_pair)
  from c1 show ?thesis
  proof (cases rule: newPluginController_cases)
    case (failed e)
    with assms l c1 show ?thesis by (intro iptables[of cfg e]) (auto simp: cmdAdd_staged)
  next
    case built
    note b = this
    obtain o2 s2 where c2: "call (delegate_add env (cfg_delegate cfg)) (DelegateAdd (cfg_delegate cfg)) s1 = (o2, s2)"
      by (metis surj_pair)
    note t2 = call_trace[OF c2]
    show ?thesis
    proof (cases o2)
      case (Inl e)
      with assms l c1 b c2 t2 show ?thesis by (intro delegate[of cfg e]) (auto simp: cmdAdd_staged)
    next
      case (Inr raw)
      note d = this
      show ?thesis
      proof (cases "new_result_from_result env raw")
        case (Inl e)
        with assms l c1 b c2 t2 d show ?thesis
          by (intro convert[of cfg raw e]) (auto simp: cmdAdd_staged)
      next
        case (Inr res)
        note n = this
        show ?thesis
        proof (cases "res_ips res")
          case Nil
          with assms l c1 b c2 t2 d n show ?thesis
            by (intro no_ips[of cfg raw res]) (auto simp: cmdAdd_staged)
        next
          case (Cons ipc rest)
          note i = this
          show ?thesis
          proof (cases "json_unmarshal_metadata env (stdin_data args)")
            case (Inl e)
            with assms l c1 b c2 t2 d n i show ?thesis
              by (intro unmarshal[of cfg raw res e]) (auto simp: cmdAdd_staged)
          next
            case (Inr md)
            note m = this
            let ?ip = "ip_string env (ipc_address_ip ipc)"
            obtain o3 s3 where c3: "call (store_add env (add_store cfg) (container_id args) ?ip md)
                (StoreAdd (add_store cfg) (container_id args) ?ip md) s2 = (o3, s3)"
              by (metis surj_pair)
            note t3 = call_trace[OF c3]
            show ?thesis
            proof (cases o3)
              case None
              with assms l c1 b c2 t2 d n i m c3 t3 show ?thesis
                by (intro notify[of cfg raw res ipc rest md s3]) (auto simp: cmdAdd_staged)
            next
              case (Some e)
              note f = this
              let ?s5 = "fprint_stderr ''cleaning up from error'' (fprint_stderr (''store add: '' @ e) s3)"
              obtain o4 s4 where c4: "call (del_ip_masq env ?ip (cfg_no_masquerade_cidr_range cfg) (cfg_vtep_name cfg))
                  (DelIPMasq ?ip (cfg_no_masquerade_cidr_range cfg) (cfg_vtep_name cfg)) ?s5 = (o4, s4)"
                by (metis surj_pair)
              note t4 = call_trace[OF c4]
              have "r = Inl (Error (''store add: '' @ e))"
                and "s' = (case o4 of None \<Rightarrow> s4
                            | Some e' \<Rightarrow> fprint_stderr (''during cleanup: removing IP masq: '' @ e') s4)"
                using assms l c1 b c2 d n i m c3 f c4
                by (auto simp: cmdAdd_staged Let_def split: option.splits)
              with l n i m t2 t3 t4 b d f show ?thesis
                by (intro store[of cfg raw res ipc rest md e o4])
                   (auto simp: fprint_stderr_trace logged_def split: option.splits)
            qed
          qed
        qed
      qed
    qed
  qed
qed

subsection \<open>\<^verbatim>\<open>cmdDel\<close>\<close>

lemma cmdDel_cases:
  assumes "cmdDel env args s = (r, s')"
  obtains
    (config) e where
      "load_wrapper_config env (stdin_data args) = Inl e"
      "r = Inl (Error e)" "trace s' = trace s"
  | (iptables) n c o1 e where
      "load_wrapper_config env (stdin_data args) = Inr n"
      "r = Inl (Error e)"
      "trace s' = trace s @ StoreDelete (del_store n) (container_id args) (c, o1)
                   # logged ''store delete: '' o1 @ [IPTablesNew (Some e)]"
  | (lookup) n c o1 o2 o3 e where
      "load_wrapper_config env (stdin_data args) = Inr n"
      "cfg_temporary_underlay_interface_names n = []"
      "r = Inl (Error (''looking up interface names: '' @ e))"
      "trace s' = trace s @ StoreDelete (del_store n) (container_id args) (c, o1)
                   # logged ''store delete: '' o1
                   @ [IPTablesNew None, DelegateDel (cfg_delegate n) o2]
                   @ logged ''delegate delete: '' o2
                   @ NetInCleanup (del_net_in n \<lparr>pc_iptables = cfg_iptables_lock_file n\<rparr>)
                       (container_id args) o3
                   # logged ''net in cleanup: '' o3
                   @ [GetNamesFromIPs (cfg_underlay_ips n) (Inl e)]"
  | (finished) n c o1 o2 o3 names o4 o5 where
      "load_wrapper_config env (stdin_data args) = Inr n"
      "r = Inr ()"
      "trace s' = trace s @ StoreDelete (del_store n) (container_id args) (c, o1)
                   # logged ''store delete: '' o1
                   @ [IPTablesNew None, DelegateDel (cfg_delegate n) o2]
                   @ logged ''delegate delete: '' o2
                   @ NetInCleanup (del_net_in n \<lparr>pc_iptables = cfg_iptables_lock_file n\<rparr>)
                       (container_id args) o3
                   # logged ''net in cleanup: '' o3
                   @ lookup_events n names
                   @ NetOutCleanup (del_net_out \<lparr>pc_iptables = cfg_iptables_lock_file n\<rparr>
                        (container_id args) (con_ip c) names) o4
                   # logged ''net out cleanup: '' o4
                   @ DelIPMasq (con_ip c) (cfg_no_masquerade_cidr_range n) (cfg_vtep_name n) o5
                   # logged ''removing IP masq: '' o5"
proof (cases "load_wrapper_config env (stdin_data args)")
  case (Inl e)
  with assms show ?thesis by (intro config[of e]) (auto simp: cmdDel_def)
next
  case (Inr n)
  note l = this
  let ?pc = "\<lparr>pc_iptables = cfg_iptables_lock_file n\<rparr>"
  obtain c o1 s1 where c1: "call (store_delete env (del_store n) (container_id args))
      (StoreDelete (del_store n) (container_id args)) s = ((c, o1), s1)"
    by (metis surj_pair)
  note t1 = call_trace[OF c1]
  let ?s2 = "log_failure ''store delete: '' o1 s1"
  obtain p s3 where c3: "newPluginController env (cfg_iptables_lock_file n) ?s2 = (p, s3)"
    by (metis surj_pair)
  from c3 show ?thesis
  proof (cases rule: newPluginController_cases)
    case (failed e)
    with assms l c1 c3 t1 show ?thesis
      by (intro iptables[of n e c o1]) (auto simp: cmdDel_def Let_def log_failure_trace)
  next
    case built
    note b = this
    obtain o2 s4 where c4: "call (delegate_del env (cfg_delegate n)) (DelegateDel (cfg_delegate n)) s3 = (o2, s4)"
      by (metis surj_pair)
    note t4 = call_trace[OF c4]
    let ?s5 = "log_failure ''delegate delete: '' o2 s4"
    obtain o3 s6 where c6: "call (netin_cleanup env (del_net_in n ?pc) (container_id args))
        (NetInCleanup (del_net_in n ?pc) (container_id args)) ?s5 = (o3, s6)"
      by (metis surj_pair)
    note t6 = call_trace[OF c6]
    let ?s7 = "log_failure ''net in cleanup: '' o3 s6"
    obtain nm s8 where c8: "interface_names env n ?s7 = (nm, s8)"
      by (metis surj_pair)
    have pre: "trace ?s7 = trace s @ StoreDelete (del_store n) (container_id args) (c, o1)
                   # logged ''store delete: '' o1
                   @ [IPTablesNew None, DelegateDel (cfg_delegate n) o2]
                   @ logged ''delegate delete: '' o2
                   @ NetInCleanup (del_net_in n ?pc) (container_id args) o3
                   # logged ''net in cleanup: '' o3"
      using t1 b(2) t4 t6 by (simp add: log_failure_trace)
    from c8 show ?thesis
    proof (cases rule: interface_names_cases)
      case (failed e)
      have "r = Inl (Error (''looking up interface names: '' @ e))" "s' = s8"
        using assms l c1 c3 b(1) c4 c6 c8 failed(2) by (auto simp: cmdDel_def Let_def)
      with l failed pre show ?thesis
        by (intro lookup[of n e c o1 o2 o3]) simp_all
    next
      case (resolved names)
      let ?no = "del_net_out ?pc (container_id args) (con_ip c) names"
      obtain o4 s9 where c9: "call (netout_cleanup env ?no) (NetOutCleanup ?no) s8 = (o4, s9)"
        by (metis surj_pair)
      note t9 = call_trace[OF c9]
      let ?s10 = "log_failure ''net out cleanup: '' o4 s9"
      obtain o5 s11 where c11: "call (del_ip_masq env (con_ip c) (cfg_no_masquerade_cidr_range n) (cfg_vtep_name n))
          (DelIPMasq (con_ip c) (cfg_no_masquerade_cidr_range n) (cfg_vtep_name n)) ?s10 = (o5, s11)"
        by (metis surj_pair)
      note t11 = call_trace[OF c11]
      have "r = Inr ()" "s' = log_failure ''removing IP masq: '' o5 s11"
        using assms l c1 c3 b(1) c4 c6 c8 resolved(1) c9 c11 by (auto simp: cmdDel_def Let_def)
      with l resolved pre t9 t11 show ?thesis
        by (intro finished[of n c o1 o2 o3 names o4 o5]) (simp_all add: log_failure_trace)
    qed
  qed
qed

subsection \<open>Evaluating a run\<close>

lemmas run_simps =
  cmdAdd_def cmdDel_def example_env_def example_args_def example_config_def example_result_def
  example_pc_def start_def call_def newPluginController_def interface_names_def
  getLocalDNSServers_def add_store_def add_net_out_def add_net_in_def del_store_def
  del_net_out_def del_net_in_def fprint_stderr_def log_failure_def logged_def lookup_events_def
  policy_url_def add_rule_events_def Let_def
  netin_failing_env_def no_mappings_config_def netin_failing_no_mappings_env_def
  lookup_failing_env_def no_container_def teardown_failing_env_def truncated_args_def
  store_failing_env_def status_204_env_def status_500_env_def bad_port_config_def
  bad_port_env_def bad_dns_config_def bad_dns_env_def empty_handle_args_def

lemma lookup_events_cases:
  "e \<in> set (lookup_events cfg names) \<Longrightarrow> e = GetNamesFromIPs (cfg_underlay_ips cfg) (Inr names)"
  by (auto simp: lookup_events_def split: if_splits)

subsection \<open>DNS servers, chain namers\<close>

lemma getLocalDNSServers_loop_find:
  "getLocalDNSServers_loop parse local acc allDNSServers =
     (case find (\<lambda>entry. parse entry = None) allDNSServers of
        None \<Rightarrow> Inr (acc @ filter (local_dns parse local) allDNSServers)
      | Some bad \<Rightarrow>
          Inl (''invalid DNS server '' @ [CHR 0x22] @ bad @ [CHR 0x22] @ '', must be valid IP address''))"
  by (induction allDNSServers arbitrary: acc) (auto simp: local_dns_def split: option.splits)

lemma getLocalDNSServers_find:
  "getLocalDNSServers parse local allDNSServers =
     (case find (\<lambda>entry. parse entry = None) allDNSServers of
        None \<Rightarrow> Inr (filter (local_dns parse local) allDNSServers)
      | Some bad \<Rightarrow>
          Inl (''invalid DNS server '' @ [CHR 0x22] @ bad @ [CHR 0x22] @ '', must be valid IP address''))"
  by (simp add: getLocalDNSServers_def getLocalDNSServers_loop_find split: option.splits)

lemma cmdAdd_namers:
  assumes run: "cmdAdd env args (start w) = (r, s')"
    and e: "e \<in> set (trace s')" "event_namer e = Some n"
  shows "n = \<lparr>max_length = 28\<rparr>"
  using run
proof (cases rule: cmdAdd_cases)
  case (store cfg raw res ipc rest md err out)
  with e show ?thesis by (auto simp: start_def logged_def split: option.splits)
next
  case (notify cfg raw res ipc rest md s3)
  from notify(6) show ?thesis
  proof (cases rule: cmdAdd_notify_cases)
    case (resume resp s4)
    from resume(3) show ?thesis
    proof (cases rule: cmdAdd_resume_cases)
      case (rules ldns names s5)
      from rules(4) show ?thesis
        by (cases rule: cmdAdd_rules_cases)
           (use rules notify resume e in
             \<open>auto simp: start_def add_net_out_def add_net_in_def
                   dest: lookup_events_cases add_rule_events_facts\<close>)
    qed (use notify resume e in \<open>auto simp: start_def dest: lookup_events_cases\<close>)
  qed (use notify e in \<open>auto simp: start_def\<close>)
qed (use e in \<open>auto simp: start_def\<close>)

lemma logged_namer:
  "e \<in> set (logged prefix out) \<Longrightarrow> event_namer e = None"
  by (auto simp: logged_def split: option.splits)

lemma cmdDel_namers:
  assumes run: "cmdDel env args (start w) = (r, s')"
    and e: "e \<in> set (trace s')" "event_namer e = Some n"
  shows "n = \<lparr>max_length = 28\<rparr>"
  using run
  by (cases rule: cmdDel_cases)
     (use e in \<open>auto simp: start_def del_net_out_def del_net_in_def
                     dest: lookup_events_cases logged_namer\<close>)

lemma bounded_names_collide:
  fixes name :: "string \<Rightarrow> string"
  assumes "\<forall>h. length (name h) \<le> n"
  shows "\<exists>h h'. h \<noteq> h' \<and> name h = name h'"
proof (rule ccontr)
  assume "\<not> ?thesis"
  then have "inj name" by (auto simp: inj_on_def)
  moreover have "range name \<subseteq> {xs. set xs \<subseteq> UNIV \<and> length xs \<le> n}"
    using assms by auto
  then have "finite (range name)"
    by (rule finite_subset) (rule finite_lists_length_le, simp)
  ultimately have "finite (UNIV :: string set)" by (rule finite_imageD[rotated])
  then show False by (simp add: infinite_UNIV_listI)
qed

subsection \<open>What precedes the masquerade exemption\<close>

lemma cmdAdd_masquerade_order:
  assumes run: "cmdAdd env args (start w) = (r, s')"
    and masq: "AddIPMasq ip cidr vtep out \<in> set (trace s')"
  shows "\<exists>cfg before no ni oi outs after.
           load_wrapper_config env (stdin_data args) = Inr cfg \<and>
           trace s' =
             before @ [NetOutInitialize no None, NetInInitialize ni (container_id args) oi]
             @ add_rule_events ni (container_id args) (cfg_instance_address cfg) ip
                 (port_mappings (cfg_runtime_config cfg)) outs
             @ [NetOutBulkInsertRules no (net_out_rules (cfg_runtime_config cfg)) None,
                AddIPMasq ip cidr vtep out] @ after \<and>
           length outs = length (port_mappings (cfg_runtime_config cfg)) \<and>
           (\<forall>x \<in> set outs. x = None)"
  using run
proof (cases rule: cmdAdd_cases)
  case (store cfg raw res ipc rest md e out')
  with masq show ?thesis by (auto simp: start_def logged_def split: option.splits)
next
  case (notify cfg raw res ipc rest md s3)
  from notify(6) show ?thesis
  proof (cases rule: cmdAdd_notify_cases)
    case (resume resp s4)
    from resume(3) show ?thesis
    proof (cases rule: cmdAdd_resume_cases)
      case (rules ldns names s5)
      have pre: "\<forall>e \<in> set (trace s5). \<forall>a b c d. e \<noteq> AddIPMasq a b c d"
        using rules(3) resume(2) notify(5) by (auto simp: start_def dest: lookup_events_cases)
      let ?ip = "ip_string env (ipc_address_ip ipc)"
      let ?pc = "\<lparr>pc_iptables = cfg_iptables_lock_file cfg\<rparr>"
      let ?no = "add_net_out cfg ?pc names (container_id args) ?ip ldns"
      let ?ni = "add_net_in cfg ?pc names"
      from rules(4) show ?thesis
      proof (cases rule: cmdAdd_rules_cases)
        case (masq oi outs e)
        with pre \<open>AddIPMasq ip cidr vtep out \<in> set (trace s')\<close>
        have eq: "ip = ?ip \<and> cidr = cfg_no_masquerade_cidr_range cfg \<and> vtep = cfg_vtep_name cfg \<and> out = Some e"
          by (auto dest: add_rule_events_is_add_rule)
        from port_outcome_None[OF masq(2)] masq(3) eq notify(1) show ?thesis
          by (intro exI[of _ cfg] exI[of _ "trace s5"] exI[of _ ?no] exI[of _ ?ni] exI[of _ oi]
                exI[of _ outs] exI[of _ "[]"]) simp
      next
        case (print oi outs e)
        with pre \<open>AddIPMasq ip cidr vtep out \<in> set (trace s')\<close>
        have eq: "ip = ?ip \<and> cidr = cfg_no_masquerade_cidr_range cfg \<and> vtep = cfg_vtep_name cfg \<and> out = None"
          by (auto dest: add_rule_events_is_add_rule)
        from port_outcome_None[OF print(2)] print(3) eq notify(1) show ?thesis
          by (intro exI[of _ cfg] exI[of _ "trace s5"] exI[of _ ?no] exI[of _ ?ni] exI[of _ oi]
                exI[of _ outs]
                exI[of _ "[Print (res\<lparr>res_dns := (res_dns res)\<lparr>nameservers := cfg_dns_servers cfg\<rparr>\<rparr>) (Some e)]"]) simp
      next
        case (success oi outs)
        with pre \<open>AddIPMasq ip cidr vtep out \<in> set (trace s')\<close>
        have eq: "ip = ?ip \<and> cidr = cfg_no_masquerade_cidr_range cfg \<and> vtep = cfg_vtep_name cfg \<and> out = None"
          by (auto dest: add_rule_events_is_add_rule)
        from port_outcome_None[OF success(2)] success(3) eq notify(1) show ?thesis
          by (intro exI[of _ cfg] exI[of _ "trace s5"] exI[of _ ?no] exI[of _ ?ni] exI[of _ oi]
                exI[of _ outs]
                exI[of _ "[Print (res\<lparr>res_dns := (res_dns res)\<lparr>nameservers := cfg_dns_servers cfg\<rparr>\<rparr>) None]"]) simp
      qed (use pre \<open>AddIPMasq ip cidr vtep out \<in> set (trace s')\<close> in
            \<open>auto dest: add_rule_events_is_add_rule\<close>)
    qed (use notify resume masq in \<open>auto simp: start_def dest: lookup_events_cases\<close>)
  qed (use notify masq in \<open>auto simp: start_def\<close>)
qed (use masq in \<open>auto simp: start_def\<close>)

section \<open>The claims\<close>

text \<open>
  C1: every step of Add is a failure point that aborts the call; in particular a failure
  of the ingress (NetIn) chain initialisation aborts the Add with an error, and no
  port-mapping ingress rule is applied after it. The code assigns the error of
  \<^verbatim>\<open>netinProvider.Initialize\<close> (line 147) and never tests it: on a host where that call
  fails and every other call succeeds, the Add goes on to apply the port mapping, the
  egress rules and the masquerade exemption, and returns success.
\<close>

theorem cmdAdd_netin_initialize_failure_ignored:
  "cmdAdd netin_failing_env example_args (start ()) =
     (Inr (),
      \<lparr>ext = (),
       trace =
         [IPTablesNew None,
          DelegateAdd ''silk'' (Inr ''result''),
          StoreAdd (add_store example_config) ''c1'' ''10.255.30.5'' ''{}'' None,
          HttpGet ''http://127.0.0.1:8687/force-policy-poll-cycle'' (Inr \<lparr>status_code = 200, body = ''''\<rparr>),
          GetNamesFromIPs [''10.0.0.1''] (Inr [''eth0'']),
          NetOutInitialize
            (add_net_out example_config example_pc [''eth0''] ''c1'' ''10.255.30.5'' [''169.254.0.2'']) None,
          NetInInitialize (add_net_in example_config example_pc [''eth0'']) ''c1''
            (Some ''running [iptables -N]: exit status 4''),
          NetInAddRule (add_net_in example_config example_pc [''eth0'']) ''c1'' 8080 80
            ''10.0.0.1'' ''10.255.30.5'' None,
          NetOutBulkInsertRules
            (add_net_out example_config example_pc [''eth0''] ''c1'' ''10.255.30.5'' [''169.254.0.2'']) [] None,
          AddIPMasq ''10.255.30.5'' ''10.255.0.0/16'' ''silk-vtep'' None,
          Print (example_result\<lparr>res_dns :=
                   (res_dns example_result)\<lparr>nameservers := [''169.254.0.2'', ''8.8.8.8'']\<rparr>\<rparr>) None]\<rparr>)"
  by (simp add: run_simps)

text \<open>
  C2, as stated: after a configuration that parses, every failure of Del is logged
  and Del returns success, a failure of the interface-name resolution included. It is
  not so: with no interface names in the configuration and a failing lookup, Del
  returns the error and neither tears down the egress chains nor removes the masquerade
  exemption.
\<close>

theorem cmdDel_lookup_failure_counterexample:
  "cmdDel lookup_failing_env example_args (start ()) =
     (Inl (Error ''looking up interface names: no such network interface''),
      \<lparr>ext = (),
       trace =
         [StoreDelete (del_store example_config) ''c1''
            (\<lparr>con_handle = ''c1'', con_ip = ''10.255.30.5'', con_metadata = ''{}''\<rparr>, None),
          IPTablesNew None,
          DelegateDel ''silk'' None,
          NetInCleanup (del_net_in example_config example_pc) ''c1'' None,
          GetNamesFromIPs [''10.0.0.1''] (Inl ''no such network interface'')]\<rparr>)"
  by (simp add: run_simps)

text \<open>
  C2, amended: for every Del whose configuration parses, the metadata-store delete runs
  first and its failure is logged. If the iptables handle cannot be built, Del returns
  that error. Otherwise the delegate delete and the ingress chain teardown run, each
  failure logged. If the interface-name lookup fails, Del returns that error, and the
  egress chain teardown and the masquerade removal do not run. Otherwise the egress
  chain teardown and the masquerade removal run, each failure logged, and Del returns
  success. A configuration that does not parse is returned to the caller, and nothing
  is called.
\<close>

theorem cmdDel_best_effort:
  assumes run: "cmdDel env args (start w) = (r, s')"
  shows "case load_wrapper_config env (stdin_data args) of
           Inl e \<Rightarrow> r = Inl (Error e) \<and> trace s' = []
         | Inr n \<Rightarrow>
             (\<exists>c o1 e.
                r = Inl (Error e) \<and>
                trace s' =
                  StoreDelete (del_store n) (container_id args) (c, o1)
                  # logged ''store delete: '' o1
                  @ [IPTablesNew (Some e)])
           \<or> (\<exists>c o1 o2 o3 e.
                cfg_temporary_underlay_interface_names n = [] \<and>
                r = Inl (Error (''looking up interface names: '' @ e)) \<and>
                trace s' =
                  StoreDelete (del_store n) (container_id args) (c, o1)
                  # logged ''store delete: '' o1
                  @ [IPTablesNew None, DelegateDel (cfg_delegate n) o2]
                  @ logged ''delegate delete: '' o2
                  @ NetInCleanup (del_net_in n \<lparr>pc_iptables = cfg_iptables_lock_file n\<rparr>)
                      (container_id args) o3
                  # logged ''net in cleanup: '' o3
                  @ [GetNamesFromIPs (cfg_underlay_ips n) (Inl e)])
           \<or> (\<exists>c o1 o2 o3 names o4 o5.
                r = Inr () \<and>
                trace s' =
                  StoreDelete (del_store n) (container_id args) (c, o1)
                  # logged ''store delete: '' o1
                  @ [IPTablesNew None, DelegateDel (cfg_delegate n) o2]
                  @ logged ''delegate delete: '' o2
                  @ NetInCleanup (del_net_in n \<lparr>pc_iptables = cfg_iptables_lock_file n\<rparr>)
                      (container_id args) o3
                  # logged ''net in cleanup: '' o3
                  @ lookup_events n names
                  @ NetOutCleanup (del_net_out \<lparr>pc_iptables = cfg_iptables_lock_file n\<rparr>
                       (container_id args) (con_ip c) names) o4
                  # logged ''net out cleanup: '' o4
                  @ DelIPMasq (con_ip c) (cfg_no_masquerade_cidr_range n) (cfg_vtep_name n) o5
                  # logged ''removing IP masq: '' o5)"
  using run
proof (cases rule: cmdDel_cases)
  case (config e)
  then show ?thesis by (simp add: start_def)
next
  case (iptables n c o1 e)
  then show ?thesis by (auto simp: start_def)
next
  case (lookup n c o1 o2 o3 e)
  then show ?thesis by (auto simp: start_def)
next
  case (finished n c o1 o2 o3 names o4 o5)
  then show ?thesis by (auto simp: start_def)
qed

theorem cmdDel_best_effort_witness:
  "cmdDel teardown_failing_env example_args (start ()) =
     (Inr (),
      \<lparr>ext = (),
       trace =
         [StoreDelete (del_store example_config) ''c1'' (no_container, Some ''permission denied''),
          Stderr ''store delete: permission denied'',
          IPTablesNew None,
          DelegateDel ''silk'' (Some ''netns not found''),
          Stderr ''delegate delete: netns not found'',
          NetInCleanup (del_net_in example_config example_pc) ''c1'' (Some ''no chain''),
          Stderr ''net in cleanup: no chain'',
          GetNamesFromIPs [''10.0.0.1''] (Inr [''eth0'']),
          NetOutCleanup (del_net_out example_pc ''c1'' '''' [''eth0'']) (Some ''no chain''),
          Stderr ''net out cleanup: no chain'',
          DelIPMasq '''' ''10.255.0.0/16'' ''silk-vtep'' (Some ''no such rule''),
          Stderr ''removing IP masq: no such rule'']\<rparr>) \<and>
   cmdDel example_env truncated_args (start ()) =
     (Inl (Error ''unexpected end of JSON input''), start ())"
proof -
  from cmdDel_best_effort[OF prod.collapse[symmetric], of teardown_failing_env example_args "()"]
    cmdDel_best_effort[OF prod.collapse[symmetric], of example_env truncated_args "()"]
  show ?thesis by (simp add: run_simps)
qed

text \<open>
  C3: if the metadata-store write fails during Add, the orchestration attempts the
  masquerade-exemption removal as a compensating action, although no masquerade
  exemption has been added at that point; a failure of that removal is only logged; and
  Add returns the store error, not the error of the removal. The trace of such an Add
  is: the iptables handle, the delegate call, the failed store write, the two messages on
  the error stream, the removal, and the message of a failed removal.
\<close>

theorem cmdAdd_store_failure_compensation:
  assumes run: "cmdAdd env args (start w) = (r, s')"
    and failed: "StoreAdd st h ip md (Some err) \<in> set (trace s')"
  shows "r = Inl (Error (''store add: '' @ err)) \<and>
         (\<exists>cfg raw out. load_wrapper_config env (stdin_data args) = Inr cfg \<and>
            trace s' =
              [IPTablesNew None, DelegateAdd (cfg_delegate cfg) (Inr raw),
               StoreAdd st h ip md (Some err),
               Stderr (''store add: '' @ err), Stderr ''cleaning up from error'',
               DelIPMasq ip (cfg_no_masquerade_cidr_range cfg) (cfg_vtep_name cfg) out]
              @ logged ''during cleanup: removing IP masq: '' out)"
  using run
proof (cases rule: cmdAdd_cases)
  case (store cfg raw res ipc rest md' e out)
  with failed show ?thesis
    by (auto simp: start_def logged_def split: option.splits)
next
  case (notify cfg raw res ipc rest md' s3)
  from notify(6) have "StoreAdd st h ip md (Some err) \<notin> set (trace s')"
  proof (cases rule: cmdAdd_notify_cases)
    case (resume resp s4)
    from resume(3) show ?thesis
    proof (cases rule: cmdAdd_resume_cases)
      case (rules ldns names s5)
      from rules(4) show ?thesis
        by (cases rule: cmdAdd_rules_cases)
           (use rules notify resume in
             \<open>auto simp: start_def dest: lookup_events_cases add_rule_events_is_add_rule\<close>)
    qed (use notify resume in \<open>auto simp: start_def dest: lookup_events_cases\<close>)
  qed (use notify in \<open>auto simp: start_def\<close>)
  with failed show ?thesis by simp
qed (use failed in \<open>auto simp: start_def\<close>)

theorem cmdAdd_store_failure_compensation_witness:
  "cmdAdd store_failing_env example_args (start ()) =
     (Inl (Error ''store add: permission denied''),
      \<lparr>ext = (),
       trace =
         [IPTablesNew None, DelegateAdd ''silk'' (Inr ''result''),
          StoreAdd (add_store example_config) ''c1'' ''10.255.30.5'' ''{}'' (Some ''permission denied''),
          Stderr ''store add: permission denied'', Stderr ''cleaning up from error'',
          DelIPMasq ''10.255.30.5'' ''10.255.0.0/16'' ''silk-vtep'' (Some ''no such rule''),
          Stderr ''during cleanup: removing IP masq: no such rule'']\<rparr>)"
proof -
  have failed: "StoreAdd (add_store example_config) ''c1'' ''10.255.30.5'' ''{}'' (Some ''permission denied'')
     \<in> set (trace (snd (cmdAdd store_failing_env example_args (start ()))))"
    by (simp add: run_simps)
  from cmdAdd_store_failure_compensation[OF prod.collapse[symmetric] failed]
  show ?thesis by (simp add: run_simps)
qed

text \<open>
  C4: within one Add the masquerade exemption is added only after the egress and ingress
  chain initialisation, every port-mapping rule and the bulk egress insert have
  succeeded. On a host where the ingress chain initialisation fails (and the
  configuration asks for no port mapping), the calls from that point on are the failed
  initialisation, the bulk insert, the masquerade exemption, added with success, and the
  printing of the result: the exemption is added after a failed initialisation.
\<close>

theorem cmdAdd_masquerade_after_failed_netin_initialize:
  "drop 6 (trace (snd (cmdAdd netin_failing_no_mappings_env example_args (start ())))) =
     [NetInInitialize (add_net_in example_config example_pc [''eth0'']) ''c1''
        (Some ''running [iptables -N]: exit status 4''),
      NetOutBulkInsertRules
        (add_net_out example_config example_pc [''eth0''] ''c1'' ''10.255.30.5'' [''169.254.0.2'']) [] None,
      AddIPMasq ''10.255.30.5'' ''10.255.0.0/16'' ''silk-vtep'' None,
      Print (example_result\<lparr>res_dns :=
               (res_dns example_result)\<lparr>nameservers := [''169.254.0.2'', ''8.8.8.8'']\<rparr>\<rparr>) None]"
  by (simp add: run_simps)

text \<open>
  C5, as stated: any 2xx response of the policy agent lets the Add continue. It is not
  so: the code compares the status with 200, and a response 204 aborts the Add.
\<close>

theorem cmdAdd_status_204_counterexample:
  "cmdAdd status_204_env example_args (start ()) =
     (Inl (Error ''vpa response code: 204 with message: ''),
      \<lparr>ext = (),
       trace =
         [IPTablesNew None,
          DelegateAdd ''silk'' (Inr ''result''),
          StoreAdd (add_store example_config) ''c1'' ''10.255.30.5'' ''{}'' None,
          HttpGet ''http://127.0.0.1:8687/force-policy-poll-cycle''
            (Inr \<lparr>status_code = 204, body = ''''\<rparr>)]\<rparr>)"
  by (simp add: run_simps show_int_examples)

text \<open>
  C5, amended: an Add that reaches the policy-agent notification aborts there exactly
  when the request fails in transport or the response status is not 200. A transport
  error is returned as it is; a status other than 200 gives an error with the response
  code and body. In both cases the notification is the last call of the Add: the
  datastore record, written just before, is not removed. A response 200 lets the Add
  continue: its outcome is that of the remaining steps (DNS filtering onwards), run from
  the state after the request.
\<close>

theorem cmdAdd_policy_agent_notification:
  assumes run: "cmdAdd env args (start w) = (r, s')"
    and get: "HttpGet url out \<in> set (trace s')"
  shows "\<exists>cfg raw res ip md.
           load_wrapper_config env (stdin_data args) = Inr cfg \<and> url = policy_url cfg \<and>
           (case out of
              Inl e \<Rightarrow>
                r = Inl (Error e) \<and>
                trace s' = [IPTablesNew None, DelegateAdd (cfg_delegate cfg) (Inr raw),
                            StoreAdd (add_store cfg) (container_id args) ip md None,
                            HttpGet url out]
            | Inr resp \<Rightarrow>
                if status_code resp \<noteq> 200
                then r = Inl (Error (''vpa response code: '' @ show_int (status_code resp)
                                      @ '' with message: '' @ body resp)) \<and>
                     trace s' = [IPTablesNew None, DelegateAdd (cfg_delegate cfg) (Inr raw),
                                 StoreAdd (add_store cfg) (container_id args) ip md None,
                                 HttpGet url out]
                else \<exists>s4. trace s4 = [IPTablesNew None, DelegateAdd (cfg_delegate cfg) (Inr raw),
                                       StoreAdd (add_store cfg) (container_id args) ip md None,
                                       HttpGet url out] \<and>
                          cmdAdd_resume env args cfg \<lparr>pc_iptables = cfg_iptables_lock_file cfg\<rparr>
                            res ip s4 = (r, s'))"
  using run
proof (cases rule: cmdAdd_cases)
  case (store cfg raw res ipc rest md e out')
  with get show ?thesis by (auto simp: start_def logged_def split: option.splits)
next
  case (notify cfg raw res ipc rest md s3)
  let ?ip = "ip_string env (ipc_address_ip ipc)"
  from notify(6) show ?thesis
  proof (cases rule: cmdAdd_notify_cases)
    case (transport e)
    with notify get show ?thesis
      by (intro exI[of _ cfg] exI[of _ raw] exI[of _ res] exI[of _ ?ip] exI[of _ md])
         (auto simp: start_def)
  next
    case (status resp)
    with notify get show ?thesis
      by (intro exI[of _ cfg] exI[of _ raw] exI[of _ res] exI[of _ ?ip] exI[of _ md])
         (auto simp: start_def)
  next
    case (resume resp s4)
    have "out = Inr resp \<and> url = policy_url cfg"
      using resume(3)
    proof (cases rule: cmdAdd_resume_cases)
      case (rules ldns names s5)
      from rules(4) show ?thesis
        by (cases rule: cmdAdd_rules_cases)
           (use rules notify resume get in
             \<open>auto simp: start_def dest: lookup_events_cases add_rule_events_is_add_rule\<close>)
    qed (use notify resume get in \<open>auto simp: start_def dest: lookup_events_cases\<close>)
    with notify resume show ?thesis
      by (intro exI[of _ cfg] exI[of _ raw] exI[of _ res] exI[of _ ?ip] exI[of _ md])
         (auto simp: start_def intro!: exI[of _ s4])
  qed
qed (use get in \<open>auto simp: start_def\<close>)

theorem cmdAdd_policy_agent_notification_witness:
  "cmdAdd status_500_env example_args (start ()) =
     (Inl (Error ''vpa response code: 500 with message: poll failed''),
      \<lparr>ext = (),
       trace =
         [IPTablesNew None,
          DelegateAdd ''silk'' (Inr ''result''),
          StoreAdd (add_store example_config) ''c1'' ''10.255.30.5'' ''{}'' None,
          HttpGet ''http://127.0.0.1:8687/force-policy-poll-cycle''
            (Inr \<lparr>status_code = 500, body = ''poll failed''\<rparr>)]\<rparr>)"
proof -
  have get: "HttpGet ''http://127.0.0.1:8687/force-policy-poll-cycle''
               (Inr \<lparr>status_code = 500, body = ''poll failed''\<rparr>)
     \<in> set (trace (snd (cmdAdd status_500_env example_args (start ()))))"
    by (simp add: run_simps)
  from cmdAdd_policy_agent_notification[OF prod.collapse[symmetric] get]
  show ?thesis by (simp add: run_simps show_int_examples)
qed

text \<open>
  C6: the port mappings are handled in list order; the first mapping with host port
  \<open>\<le> 0\<close> makes Add fail with an error before any ingress rule is created for that
  mapping, and the rules already applied for earlier mappings stay (no rollback).
  For an Add that reaches the port mappings (its trace has the ingress chain
  initialisation) and a list \<open>pre @ bad # post\<close> whose first mapping with host port
  \<open>\<le> 0\<close> is \<open>bad\<close>: the trace ends with one \<^verbatim>\<open>AddRule\<close> call per mapping of a prefix of
  \<open>pre\<close>, in order, and nothing after them; no call of the Add takes anything back; Add
  fails, with the port error when every rule of \<open>pre\<close> was applied, and otherwise with
  the error of the rule that failed.
\<close>

theorem cmdAdd_port_mappings:
  assumes run: "cmdAdd env args (start w) = (r, s')"
    and cfg: "load_wrapper_config env (stdin_data args) = Inr cfg"
    and reached: "NetInInitialize ni cid oi \<in> set (trace s')"
    and pms: "port_mappings (cfg_runtime_config cfg) = pre @ bad # post"
    and pre: "\<forall>pm \<in> set pre. 0 < host_port pm"
    and bad: "host_port bad \<le> 0"
  shows "\<exists>before ip outs.
           trace s' = before @ NetInInitialize ni cid oi
                        # add_rule_events ni cid (cfg_instance_address cfg) ip pre outs \<and>
           (\<forall>e \<in> set before. \<not> is_add_rule e) \<and>
           (\<forall>e \<in> set (trace s'). \<not> is_cleanup e) \<and>
           length outs \<le> length pre \<and>
           (if \<forall>out \<in> set outs. out = None
            then length outs = length pre \<and>
                 r = Inl (Error (''cannot allocate port '' @ show_int (host_port bad)))
            else \<exists>e. last outs = Some e \<and> (\<forall>out \<in> set (butlast outs). out = None) \<and>
                     r = Inl (Error (''adding netin rule: '' @ e)))"
  using run
proof (cases rule: cmdAdd_cases)
  case (store cfg' raw res ipc rest md e out')
  with reached show ?thesis by (auto simp: start_def logged_def split: option.splits)
next
  case (notify cfg' raw res ipc rest md s3)
  with cfg have same: "cfg' = cfg" by simp
  let ?ip = "ip_string env (ipc_address_ip ipc)"
  let ?pc = "\<lparr>pc_iptables = cfg_iptables_lock_file cfg\<rparr>"
  from notify(6) show ?thesis
  proof (cases rule: cmdAdd_notify_cases)
    case (resume resp s4)
    from resume(3) show ?thesis
    proof (cases rule: cmdAdd_resume_cases)
      case (rules ldns names s5)
      let ?before = "trace s5 @
        [NetOutInitialize (add_net_out cfg ?pc names (container_id args) ?ip ldns) None]"
      have before: "\<forall>e \<in> set ?before. \<not> is_add_rule e \<and> \<not> is_cleanup e \<and>
                      (\<forall>ni cid oi. e \<noteq> NetInInitialize ni cid oi)"
        using rules(3) resume(2) notify(5) same
        by (auto simp: start_def dest: lookup_events_cases)
      from rules(4) show ?thesis
      proof (cases rule: cmdAdd_rules_cases)
        case (netout_init e)
        with before reached same show ?thesis by auto
      next
        case (ports oi' outs f)
        from ports(2) pms same have po: "port_outcome (pre @ bad # post) outs (Some f)" by simp
        note pb = port_outcome_bad[OF po pre bad]
        then have len: "length outs \<le> length pre" by simp
        have tr: "trace s' = ?before @ NetInInitialize (add_net_in cfg ?pc names) (container_id args) oi'
              # add_rule_events (add_net_in cfg ?pc names) (container_id args)
                  (cfg_instance_address cfg) ?ip pre outs"
          using ports(3) same pms add_rule_events_append[OF len, of _ _ _ _ "bad # post"]
          by simp
        have eq: "ni = add_net_in cfg ?pc names \<and> cid = container_id args \<and> oi = oi'"
          using reached before unfolding tr
          by (auto dest: add_rule_events_is_add_rule)
        have nc: "\<forall>e \<in> set (trace s'). \<not> is_cleanup e"
          using before unfolding tr by (auto dest: add_rule_events_facts)
        show ?thesis
          apply (rule exI[of _ ?before], rule exI[of _ ?ip], rule exI[of _ outs])
          using tr eq nc before pb ports(1) by (auto split: if_splits)
      next
        case (bulk oi' outs e)
        from port_outcome_None[OF bulk(2)] pms same bad show ?thesis by auto
      next
        case (masq oi' outs e)
        from port_outcome_None[OF masq(2)] pms same bad show ?thesis by auto
      next
        case (print oi' outs e)
        from port_outcome_None[OF print(2)] pms same bad show ?thesis by auto
      next
        case (success oi' outs)
        from port_outcome_None[OF success(2)] pms same bad show ?thesis by auto
      qed
    qed (use notify resume reached in \<open>auto simp: start_def dest: lookup_events_cases\<close>)
  qed (use notify reached in \<open>auto simp: start_def\<close>)
qed (use reached in \<open>auto simp: start_def\<close>)

theorem cmdAdd_port_mappings_witness:
  "cmdAdd bad_port_env example_args (start ()) =
     (Inl (Error ''cannot allocate port 0''),
      \<lparr>ext = (),
       trace =
         [IPTablesNew None,
          DelegateAdd ''silk'' (Inr ''result''),
          StoreAdd (add_store example_config) ''c1'' ''10.255.30.5'' ''{}'' None,
          HttpGet ''http://127.0.0.1:8687/force-policy-poll-cycle'' (Inr \<lparr>status_code = 200, body = ''''\<rparr>),
          GetNamesFromIPs [''10.0.0.1''] (Inr [''eth0'']),
          NetOutInitialize
            (add_net_out example_config example_pc [''eth0''] ''c1'' ''10.255.30.5'' [''169.254.0.2'']) None,
          NetInInitialize (add_net_in example_config example_pc [''eth0'']) ''c1'' None,
          NetInAddRule (add_net_in example_config example_pc [''eth0'']) ''c1'' 8080 80
            ''10.0.0.1'' ''10.255.30.5'' None]\<rparr>)"
proof -
  have a: "load_wrapper_config bad_port_env (stdin_data example_args) = Inr bad_port_config"
    by (simp add: bad_port_env_def)
  have b: "NetInInitialize (add_net_in example_config example_pc [''eth0'']) ''c1'' None
             \<in> set (trace (snd (cmdAdd bad_port_env example_args (start ()))))"
    by (simp add: run_simps)
  have c: "port_mappings (cfg_runtime_config bad_port_config) =
             [\<lparr>host_port = 8080, container_port = 80\<rparr>] @ \<lparr>host_port = 0, container_port = 81\<rparr>
               # [\<lparr>host_port = 9090, container_port = 90\<rparr>]"
    by (simp add: bad_port_config_def)
  have d: "\<forall>pm \<in> set [\<lparr>host_port = 8080, container_port = 80\<rparr>]. 0 < host_port pm" by simp
  have e: "host_port \<lparr>host_port = 0, container_port = 81\<rparr> \<le> 0" by simp
  from cmdAdd_port_mappings[OF prod.collapse[symmetric] a b c d e]
  show ?thesis by (simp add: run_simps show_int_examples)
qed

text \<open>
  C7: the DNS server list given to the firewall chain managers holds exactly the
  configured entries that parse as IP addresses and are link-local unicast, in their
  order; an entry that does not parse makes the whole Add fail with a configuration
  error. \<^verbatim>\<open>getLocalDNSServers\<close> returns the error of the first entry that does not parse,
  and otherwise the filtered list. In an Add, when every entry parses, every call that
  carries a DNS server list (the egress manager's) carries the filtered list; when an
  entry does not parse, the Add fails, no firewall chain manager is called, and an Add
  that got past the policy-agent notification fails with the error of that entry.
\<close>

theorem cmdAdd_local_dns_servers:
  assumes run: "cmdAdd env args (start w) = (r, s')"
    and cfg: "load_wrapper_config env (stdin_data args) = Inr cfg"
  shows "case find (\<lambda>entry. parse_ip env entry = None) (cfg_dns_servers cfg) of
           None \<Rightarrow>
             getLocalDNSServers (parse_ip env) (is_link_local_unicast env) (cfg_dns_servers cfg) =
               Inr (filter (local_dns (parse_ip env) (is_link_local_unicast env)) (cfg_dns_servers cfg)) \<and>
             (\<forall>e \<in> set (trace s'). \<forall>servers. event_dns_servers e = Some servers \<longrightarrow>
                servers = filter (local_dns (parse_ip env) (is_link_local_unicast env))
                            (cfg_dns_servers cfg))
         | Some bad \<Rightarrow>
             getLocalDNSServers (parse_ip env) (is_link_local_unicast env) (cfg_dns_servers cfg) =
               Inl (''invalid DNS server '' @ [CHR 0x22] @ bad @ [CHR 0x22] @ '', must be valid IP address'') \<and>
             (\<exists>f. r = Inl f) \<and>
             (\<forall>e \<in> set (trace s'). event_namer e = None) \<and>
             (\<forall>resp. HttpGet (policy_url cfg) (Inr resp) \<in> set (trace s') \<and> status_code resp = 200 \<longrightarrow>
                r = Inl (Error (''invalid DNS server '' @ [CHR 0x22] @ bad @ [CHR 0x22]
                                  @ '', must be valid IP address'')))"
  using run
proof (cases rule: cmdAdd_cases)
  case (store cfg' raw res ipc rest md e out')
  with cfg show ?thesis
    by (auto simp: start_def logged_def getLocalDNSServers_find split: option.splits)
next
  case (notify cfg' raw res ipc rest md s3)
  with cfg have same: "cfg' = cfg" by simp
  from notify(6) show ?thesis
  proof (cases rule: cmdAdd_notify_cases)
    case (resume resp s4)
    from resume(3) show ?thesis
    proof (cases rule: cmdAdd_resume_cases)
      case (rules ldns names s5)
      from rules(4) show ?thesis
        by (cases rule: cmdAdd_rules_cases)
           (use rules notify resume same in
             \<open>auto simp: start_def getLocalDNSServers_find add_net_out_def
                   dest: lookup_events_cases add_rule_events_facts split: option.splits\<close>)
    qed (use notify resume same in
          \<open>auto simp: start_def getLocalDNSServers_find dest: lookup_events_cases split: option.splits\<close>)
  qed (use notify same in \<open>auto simp: start_def getLocalDNSServers_find split: option.splits\<close>)
qed (use cfg in \<open>auto simp: start_def getLocalDNSServers_find split: option.splits\<close>)

theorem cmdAdd_local_dns_servers_witness:
  "List.map_filter event_dns_servers (trace (snd (cmdAdd example_env example_args (start ())))) =
     [[''169.254.0.2''], [''169.254.0.2'']] \<and>
   cmdAdd bad_dns_env example_args (start ()) =
     (Inl (Error (''invalid DNS server '' @ [CHR 0x22] @ ''dns.internal'' @ [CHR 0x22]
                    @ '', must be valid IP address'')),
      \<lparr>ext = (),
       trace =
         [IPTablesNew None,
          DelegateAdd ''silk'' (Inr ''result''),
          StoreAdd (add_store example_config) ''c1'' ''10.255.30.5'' ''{}'' None,
          HttpGet ''http://127.0.0.1:8687/force-policy-poll-cycle''
            (Inr \<lparr>status_code = 200, body = ''''\<rparr>)]\<rparr>)"
proof -
  have a: "load_wrapper_config example_env (stdin_data example_args) = Inr example_config"
    by (simp add: run_simps)
  have b: "load_wrapper_config bad_dns_env (stdin_data example_args) = Inr bad_dns_config"
    by (simp add: bad_dns_env_def)
  have c: "find (\<lambda>entry. parse_ip example_env entry = None) (cfg_dns_servers example_config) = None"
    by (simp add: run_simps)
  have d: "find (\<lambda>entry. parse_ip bad_dns_env entry = None) (cfg_dns_servers bad_dns_config)
             = Some ''dns.internal''"
    by (simp add: run_simps)
  from cmdAdd_local_dns_servers[OF prod.collapse[symmetric] a, of "()"]
    cmdAdd_local_dns_servers[OF prod.collapse[symmetric] b, of "()"]
  show ?thesis unfolding c d by (simp add: run_simps List.map_filter_def)
qed

text \<open>
  C8: on a fully successful Add, the result printed for the CNI caller is the delegate's
  result, normalised, with only the DNS nameserver list replaced, by the whole configured
  DNS server list (not its link-local part); and the container address used throughout
  the Add is the first address of the delegate result's IP list. The last call of a
  successful Add is the only \<^verbatim>\<open>Print\<close>, of the normalised result with that one field
  updated; every call that takes a container address takes the text of the first
  address.
\<close>

theorem cmdAdd_success_result:
  assumes run: "cmdAdd env args (start w) = (r, s')"
    and ok: "r = Inr ()"
  shows "\<exists>cfg raw res ipc rest.
           load_wrapper_config env (stdin_data args) = Inr cfg \<and>
           DelegateAdd (cfg_delegate cfg) (Inr raw) \<in> set (trace s') \<and>
           new_result_from_result env raw = Inr res \<and>
           res_ips res = ipc # rest \<and>
           trace s' \<noteq> [] \<and>
           last (trace s') =
             Print (res\<lparr>res_dns := (res_dns res)\<lparr>nameservers := cfg_dns_servers cfg\<rparr>\<rparr>) None \<and>
           (\<forall>e \<in> set (butlast (trace s')). \<forall>printed out. e \<noteq> Print printed out) \<and>
           (\<forall>e \<in> set (trace s'). \<forall>ip. event_container_ip e = Some ip \<longrightarrow>
              ip = ip_string env (ipc_address_ip ipc))"
  using run
proof (cases rule: cmdAdd_cases)
  case (notify cfg raw res ipc rest md s3)
  from notify(6) show ?thesis
  proof (cases rule: cmdAdd_notify_cases)
    case (resume resp s4)
    from resume(3) show ?thesis
    proof (cases rule: cmdAdd_resume_cases)
      case (rules ldns names s5)
      from rules(4) show ?thesis
      proof (cases rule: cmdAdd_rules_cases)
        case (success oi outs)
        with rules(3) resume(2) notify(1-5) show ?thesis
          by (intro exI[of _ cfg] exI[of _ raw] exI[of _ res] exI[of _ ipc] exI[of _ rest])
             (auto simp: start_def add_net_out_def butlast_append
                   dest: lookup_events_cases add_rule_events_facts add_rule_events_is_add_rule)
      qed (use ok in auto)
    qed (use ok in auto)
  qed (use ok in auto)
qed (use ok in auto)

theorem cmdAdd_success_result_witness:
  "fst (cmdAdd example_env example_args (start ())) = Inr () \<and>
   last (trace (snd (cmdAdd example_env example_args (start ())))) =
     Print \<lparr>res_cni_version = ''0.3.1'',
            res_interfaces = [],
            res_ips = [\<lparr>ipc_version = ''4'', ipc_address_ip = [10, 255, 30, 5],
                       ipc_address_mask = [255, 255, 255, 255], ipc_gateway = [169, 254, 0, 1]\<rparr>],
            res_routes = [],
            res_dns = \<lparr>nameservers = [''169.254.0.2'', ''8.8.8.8''], domain = ''internal'',
                       search = [], options = []\<rparr>\<rparr> None \<and>
   List.map_filter event_container_ip (trace (snd (cmdAdd example_env example_args (start ())))) =
     [''10.255.30.5'', ''10.255.30.5'', ''10.255.30.5'', ''10.255.30.5'', ''10.255.30.5'']"
proof -
  have ok: "fst (cmdAdd example_env example_args (start ())) = Inr ()"
    by (simp add: run_simps)
  from cmdAdd_success_result[OF prod.collapse[symmetric] ok]
  show ?thesis by (simp add: run_simps List.map_filter_def)
qed

text \<open>
  C9, as stated: for every Add whose delegate call succeeds and whose container handle
  is empty, the store write, the policy-agent notification, the DNS filtering and the
  interface-name resolution all execute before Add fails with the invalid-Container-ID
  error. It is not so for every such Add: each of those steps can fail first. With an
  empty handle and a policy agent that answers 500, the Add fails with the error of the
  notification, and the interface names are never resolved.
\<close>

theorem cmdAdd_empty_handle_counterexample:
  "cmdAdd status_500_env empty_handle_args (start ()) =
     (Inl (Error ''vpa response code: 500 with message: poll failed''),
      \<lparr>ext = (),
       trace =
         [IPTablesNew None,
          DelegateAdd ''silk'' (Inr ''result''),
          StoreAdd (add_store example_config) '''' ''10.255.30.5'' ''{}'' None,
          HttpGet ''http://127.0.0.1:8687/force-policy-poll-cycle''
            (Inr \<lparr>status_code = 500, body = ''poll failed''\<rparr>)]\<rparr>)"
  by (simp add: run_simps show_int_examples)

text \<open>
  C9, amended: for every Add with an empty container handle in which the policy agent
  answers 200 (so that the delegate call and the store write before it have succeeded),
  the DNS filtering succeeds and the interface-name lookup does not fail, the calls of
  the Add are exactly: the iptables handle, the delegate call, the store write under the
  empty handle, the notification and the interface-name resolution; then Add fails with
  the invalid-Container-ID error. No call of that Add removes the record.
\<close>

theorem cmdAdd_empty_handle:
  assumes run: "cmdAdd env args (start w) = (r, s')"
    and empty: "container_id args = []"
    and cfg: "load_wrapper_config env (stdin_data args) = Inr cfg"
    and notified: "HttpGet url (Inr resp) \<in> set (trace s')" "status_code resp = 200"
    and dns: "getLocalDNSServers (parse_ip env) (is_link_local_unicast env) (cfg_dns_servers cfg)
                = Inr ldns"
    and lookup_ok: "\<forall>e. GetNamesFromIPs (cfg_underlay_ips cfg) (Inl e) \<notin> set (trace s')"
  shows "r = Inl (Error ''invalid Container ID'') \<and>
         (\<exists>raw ip md names.
            trace s' =
              [IPTablesNew None, DelegateAdd (cfg_delegate cfg) (Inr raw),
               StoreAdd (add_store cfg) [] ip md None,
               HttpGet url (Inr resp)] @ lookup_events cfg names) \<and>
         (\<forall>e \<in> set (trace s'). \<not> is_cleanup e)"
  using run
proof (cases rule: cmdAdd_cases)
  case (store cfg' raw res ipc rest md e out')
  with notified show ?thesis by (auto simp: start_def logged_def split: option.splits)
next
  case (notify cfg' raw res ipc rest md s3)
  with cfg have same: "cfg' = cfg" by simp
  from notify(6) show ?thesis
  proof (cases rule: cmdAdd_notify_cases)
    case (resume resp' s4)
    from resume(3) show ?thesis
    proof (cases rule: cmdAdd_resume_cases)
      case (handle ldns' nms)
      with notify resume same notified empty show ?thesis
        by (auto simp: start_def dest: lookup_events_cases)
    next
      case (names ldns' e)
      with notify resume same lookup_ok show ?thesis by (auto simp: start_def)
    qed (use notify resume same dns empty in \<open>auto simp: start_def\<close>)
  qed (use notify notified in \<open>auto simp: start_def\<close>)
qed (use notified in \<open>auto simp: start_def\<close>)

theorem cmdAdd_empty_handle_witness:
  "cmdAdd example_env empty_handle_args (start ()) =
     (Inl (Error ''invalid Container ID''),
      \<lparr>ext = (),
       trace =
         [IPTablesNew None,
          DelegateAdd ''silk'' (Inr ''result''),
          StoreAdd (add_store example_config) '''' ''10.255.30.5'' ''{}'' None,
          HttpGet ''http://127.0.0.1:8687/force-policy-poll-cycle'' (Inr \<lparr>status_code = 200, body = ''''\<rparr>),
          GetNamesFromIPs [''10.0.0.1''] (Inr [''eth0''])]\<rparr>)"
proof -
  let ?s = "snd (cmdAdd example_env empty_handle_args (start ()))"
  have a: "container_id empty_handle_args = []" by (simp add: empty_handle_args_def)
  have b: "load_wrapper_config example_env (stdin_data empty_handle_args) = Inr example_config"
    by (simp add: run_simps)
  have c: "HttpGet ''http://127.0.0.1:8687/force-policy-poll-cycle''
             (Inr \<lparr>status_code = 200, body = ''''\<rparr>) \<in> set (trace ?s)"
    by (simp add: run_simps)
  have d: "status_code \<lparr>status_code = 200, body = ''''\<rparr> = 200" by simp
  have e: "getLocalDNSServers (parse_ip example_env) (is_link_local_unicast example_env)
             (cfg_dns_servers example_config) = Inr [''169.254.0.2'']"
    by (simp add: run_simps)
  have f: "\<forall>e. GetNamesFromIPs (cfg_underlay_ips example_config) (Inl e) \<notin> set (trace ?s)"
    by (simp add: run_simps)
  from cmdAdd_empty_handle[OF prod.collapse[symmetric] a b c d e f]
  show ?thesis by (simp add: run_simps)
qed

text \<open>
  C10, as stated: chain names are bounded to 28 characters and two different container
  handles never produce the same chain name. With the truncation the spec describes it
  is not so: two handles that agree on their first characters get the same name. (No
  naming function bounded in length can keep all handles apart: \<open>bounded_names_collide\<close>.)
\<close>

theorem chain_name_collision_counterexample:
  "long_handle_a \<noteq> long_handle_b \<and>
   chain_name \<lparr>max_length = 28\<rparr> ''netin--'' long_handle_a =
   chain_name \<lparr>max_length = 28\<rparr> ''netin--'' long_handle_b"
  by (simp add: chain_name_def long_handle_a_def long_handle_b_def)

text \<open>
  C10, amended: a chain name is a function of the namer, the role tag and the container
  handle, at most 28 characters long; every firewall chain manager that an Add or a Del
  calls is built with the same namer (maximum length 28), so that the name computed at
  initialisation is the name computed at cleanup; and two different handles get
  different names whenever the tag followed by each handle fits in 28 characters.
\<close>

theorem chain_names_bounded_and_shared:
  assumes add: "cmdAdd env args (start w) = (r, s')"
    and del: "cmdDel env' args' (start w') = (r', s'')"
    and e1: "e1 \<in> set (trace s')" "event_namer e1 = Some n1"
    and e2: "e2 \<in> set (trace s'')" "event_namer e2 = Some n2"
  shows "max_length n1 = 28 \<and> n1 = n2 \<and>
         chain_name n1 tag h = chain_name n2 tag h \<and>
         length (chain_name n1 tag h) \<le> 28 \<and>
         (h \<noteq> h' \<and> length (tag @ h) \<le> 28 \<and> length (tag @ h') \<le> 28 \<longrightarrow>
            chain_name n1 tag h \<noteq> chain_name n2 tag h')"
proof -
  from cmdAdd_namers[OF add e1] have n1: "n1 = \<lparr>max_length = 28\<rparr>" .
  from cmdDel_namers[OF del e2] have n2: "n2 = \<lparr>max_length = 28\<rparr>" .
  have bound: "length (chain_name n1 tag h) \<le> 28"
    by (simp add: n1 chain_name_def)
  have apart: "chain_name n1 tag h \<noteq> chain_name n2 tag h'"
    if "h \<noteq> h'" "length (tag @ h) \<le> 28" "length (tag @ h') \<le> 28"
    using that by (simp add: n1 n2 chain_name_def)
  show ?thesis using bound apart by (simp add: n1 n2)
qed

theorem chain_names_bounded_and_shared_witness:
  "chain_name (ni_chain_namer (add_net_in example_config example_pc [''eth0''])) ''netin--'' ''c1''
     = chain_name (ni_chain_namer (del_net_in example_config example_pc)) ''netin--'' ''c1'' \<and>
   chain_name (ni_chain_namer (add_net_in example_config example_pc [''eth0''])) ''netin--'' ''c1''
     = ''netin--c1'' \<and>
   chain_name (ni_chain_namer (add_net_in example_config example_pc [''eth0''])) ''netin--'' ''c1''
     \<noteq> chain_name (ni_chain_namer (del_net_in example_config example_pc)) ''netin--'' ''c2''"
proof -
  let ?e1 = "NetInInitialize (add_net_in example_config example_pc [''eth0'']) ''c1'' None"
  let ?e2 = "NetInCleanup (del_net_in example_config example_pc) ''c1'' None"
  have a: "?e1 \<in> set (trace (snd (cmdAdd example_env example_args (start ()))))"
    by (simp add: run_simps)
  have b: "event_namer ?e1 = Some (ni_chain_namer (add_net_in example_config example_pc [''eth0'']))"
    by simp
  have c: "?e2 \<in> set (trace (snd (cmdDel example_env example_args (start ()))))"
    by (simp add: run_simps)
  have d: "event_namer ?e2 = Some (ni_chain_namer (del_net_in example_config example_pc))"
    by simp
  have e: "''c1'' \<noteq> ''c2'' \<and> length (''netin--'' @ ''c1'') \<le> 28 \<and> length (''netin--'' @ ''c2'') \<le> 28"
    by simp
  from chain_names_bounded_and_shared[OF prod.collapse[symmetric] prod.collapse[symmetric] a b c d,
      of "''netin--''" "''c1''" "''c2''"] e
  show ?thesis by (simp add: chain_name_def add_net_in_def)
qed

end
